theory Spec2Isabelle
  imports Complex_Main "HOL-Library.Sublist"
begin

section \<open>Python values\<close>

text \<open>
  The validator of \<^verbatim>\<open>src/validators.py\<close> receives a decoded JSON-LD document: a
  \<^verbatim>\<open>Dict[str, Any]\<close>. The values it can meet are the ones a JSON decoder builds:
  \<^verbatim>\<open>None\<close>, booleans, integers, floats, strings, lists and dictionaries with string
  keys. A float is represented by its exact (finite) value. A dictionary is an association
  list read with \<open>map_of\<close>; its keys are the distinct first components.

  A Python string is a sequence of code points; \<open>string\<close> holds the code points below 256
  (Latin-1), one \<open>char\<close> each, so \<open>length\<close> is Python's \<^verbatim>\<open>len\<close>.
\<close>

datatype pyval =
    PNone
  | PBool bool
  | PInt int
  | PFloat rat
  | PStr string
  | PList "pyval list"
  | PDict "(string \<times> pyval) list"

type_synonym pydict = "(string \<times> pyval) list"

text \<open>The exceptions the validator's code can raise on such values, each with its message.\<close>

datatype pyexn = TypeError string | AttributeError string

fun str_exn :: "pyexn \<Rightarrow> string" where
  "str_exn (TypeError m) = m"
| "str_exn (AttributeError m) = m"

fun type_name :: "pyval \<Rightarrow> string" where
  "type_name PNone = ''NoneType''"
| "type_name (PBool _) = ''bool''"
| "type_name (PInt _) = ''int''"
| "type_name (PFloat _) = ''float''"
| "type_name (PStr _) = ''str''"
| "type_name (PList _) = ''list''"
| "type_name (PDict _) = ''dict''"

definition sq :: string where
  "sq = [CHR 0x27]"

definition no_attribute :: "pyval \<Rightarrow> string \<Rightarrow> pyexn" where
  "no_attribute v a = AttributeError (sq @ type_name v @ sq @ '' object has no attribute '' @ sq @ a @ sq)"

definition not_container :: "pyval \<Rightarrow> pyexn" where
  "not_container v = TypeError (''argument of type '' @ sq @ type_name v @ sq @ '' is not iterable'')"

definition not_iterable :: "pyval \<Rightarrow> pyexn" where
  "not_iterable v = TypeError (sq @ type_name v @ sq @ '' object is not iterable'')"

definition no_len :: "pyval \<Rightarrow> pyexn" where
  "no_len v = TypeError (''object of type '' @ sq @ type_name v @ sq @ '' has no len()'')"

definition unhashable :: "pyval \<Rightarrow> pyexn" where
  "unhashable v = TypeError (''unhashable type: '' @ sq @ type_name v @ sq)"

subsection \<open>Dictionaries\<close>

text \<open>\<^verbatim>\<open>k in d\<close>, \<^verbatim>\<open>d.get(k, default)\<close> and \<^verbatim>\<open>d.get(k)\<close>.\<close>

definition dict_has :: "pydict \<Rightarrow> string \<Rightarrow> bool" where
  "dict_has d k = (map_of d k \<noteq> None)"

definition dict_get_or :: "pydict \<Rightarrow> string \<Rightarrow> pyval \<Rightarrow> pyval" where
  "dict_get_or d k dflt = (case map_of d k of Some v \<Rightarrow> v | None \<Rightarrow> dflt)"

definition dict_get :: "pydict \<Rightarrow> string \<Rightarrow> pyval" where
  "dict_get d k = dict_get_or d k PNone"

definition dict_keys :: "pydict \<Rightarrow> string list" where
  "dict_keys d = remdups (map fst d)"

subsection \<open>Strings\<close>

text \<open>
  \<^verbatim>\<open>str.isspace\<close> on the code points below 256: TAB to CR, FS to US, the space, NEL and the
  no-break space.
\<close>

definition is_space :: "char \<Rightarrow> bool" where
  "is_space c = (let n = (of_char c :: nat) in
     (9 \<le> n \<and> n \<le> 13) \<or> (28 \<le> n \<and> n \<le> 32) \<or> n = 133 \<or> n = 160)"

definition strip :: "string \<Rightarrow> string" where
  "strip s = rev (dropWhile is_space (rev (dropWhile is_space s)))"

text \<open>\<^verbatim>\<open>s.split()\<close>: the maximal runs of non-space characters, in order.\<close>

fun split_acc :: "string \<Rightarrow> string \<Rightarrow> string list" where
  "split_acc cur [] = (if cur = [] then [] else [rev cur])"
| "split_acc cur (c # cs) =
     (if is_space c then (if cur = [] then split_acc [] cs else rev cur # split_acc [] cs)
      else split_acc (c # cur) cs)"

definition split :: "string \<Rightarrow> string list" where
  "split s = split_acc [] s"

text \<open>\<^verbatim>\<open>str.lower\<close> on the code points below 256: A-Z and the Latin-1 capitals move up by 32.\<close>

definition lower_char :: "char \<Rightarrow> char" where
  "lower_char c = (let n = (of_char c :: nat) in
     if (65 \<le> n \<and> n \<le> 90) \<or> (192 \<le> n \<and> n \<le> 222 \<and> n \<noteq> 215) then char_of (n + 32) else c)"

definition lower :: "string \<Rightarrow> string" where
  "lower s = map lower_char s"

text \<open>\<^verbatim>\<open>str(n)\<close> for a non-negative integer, as the f-strings format an index.\<close>

fun str_nat :: "nat \<Rightarrow> string" where
  "str_nat n = (if n < 10 then [char_of (48 + n)] else str_nat (n div 10) @ [char_of (48 + n mod 10)])"

declare str_nat.simps [simp del]

section \<open>The structural pass\<close>

record entity_results =
  e_issues :: "string list"
  e_warnings :: "string list"

definition add_e_issue :: "string \<Rightarrow> entity_results \<Rightarrow> entity_results" where
  "add_e_issue m r = r\<lparr>e_issues := e_issues r @ [m]\<rparr>"

definition add_e_warning :: "string \<Rightarrow> entity_results \<Rightarrow> entity_results" where
  "add_e_warning m r = r\<lparr>e_warnings := e_warnings r @ [m]\<rparr>"

definition question_prefix :: "nat \<Rightarrow> string" where
  "question_prefix index = ''Question '' @ str_nat index @ '': ''"

text \<open>The loop over the required fields of an entity (lines 126-129).\<close>

fun entity_required :: "string list \<Rightarrow> pydict \<Rightarrow> nat \<Rightarrow> entity_results \<Rightarrow> entity_results" where
  "entity_required [] entity index results = results"
| "entity_required (field # rest) entity index results =
     entity_required rest entity index
       (if \<not> dict_has entity field
        then add_e_issue (question_prefix index @ ''Missing required field '' @ sq @ field @ sq) results
        else results)"

text \<open>The check of \<^verbatim>\<open>name\<close> (lines 136-143).\<close>

definition entity_name :: "pydict \<Rightarrow> nat \<Rightarrow> entity_results \<Rightarrow> entity_results" where
  "entity_name entity index results =
     (case map_of entity ''name'' of
        None \<Rightarrow> results
      | Some name \<Rightarrow>
          (case name of
             PStr s \<Rightarrow>
               if strip s = [] then
                 add_e_issue (question_prefix index @ sq @ ''name'' @ sq @ '' must be a non-empty string'') results
               else if length s < 10 then
                 add_e_warning (question_prefix index @ ''Question is very short'') results
               else if length s > 200 then
                 add_e_warning (question_prefix index @ ''Question is very long'') results
               else results
           | _ \<Rightarrow>
               add_e_issue (question_prefix index @ sq @ ''name'' @ sq @ '' must be a non-empty string'') results))"

text \<open>The check of \<^verbatim>\<open>acceptedAnswer\<close> (lines 146-163).\<close>

definition entity_answer_text :: "pydict \<Rightarrow> nat \<Rightarrow> entity_results \<Rightarrow> entity_results" where
  "entity_answer_text answer index results =
     (case map_of answer ''text'' of
        None \<Rightarrow> add_e_issue (question_prefix index @ ''acceptedAnswer missing '' @ sq @ ''text'' @ sq @ '' field'') results
      | Some text \<Rightarrow>
          (case text of
             PStr s \<Rightarrow>
               if strip s = [] then
                 add_e_issue (question_prefix index @ ''acceptedAnswer text must be non-empty'') results
               else if length s < 20 then
                 add_e_warning (question_prefix index @ ''Answer is very short'') results
               else if length s > 1000 then
                 add_e_warning (question_prefix index @ ''Answer is very long'') results
               else results
           | _ \<Rightarrow> add_e_issue (question_prefix index @ ''acceptedAnswer text must be non-empty'') results))"

definition entity_answer :: "pydict \<Rightarrow> nat \<Rightarrow> entity_results \<Rightarrow> entity_results" where
  "entity_answer entity index results =
     (case map_of entity ''acceptedAnswer'' of
        None \<Rightarrow> results
      | Some answer \<Rightarrow>
          (case answer of
             PDict a \<Rightarrow>
               entity_answer_text a index
                 (if dict_get a ''@type'' \<noteq> PStr ''Answer''
                  then add_e_issue (question_prefix index @ ''acceptedAnswer @type must be '' @ sq @ ''Answer'' @ sq) results
                  else results)
           | _ \<Rightarrow> add_e_issue (question_prefix index @ ''acceptedAnswer must be a dictionary'') results))"

text \<open>
  \<^verbatim>\<open>_validate_question_entity\<close> (lines 121-165). On an entity that is not a dictionary the
  membership tests of the first loop raise \<^verbatim>\<open>TypeError\<close> unless the entity is a string or
  a list, and then \<^verbatim>\<open>entity.get\<close> raises \<^verbatim>\<open>AttributeError\<close>; the local results are lost
  with the exception.
\<close>

definition validate_question_entity :: "pyval \<Rightarrow> nat \<Rightarrow> pyexn + entity_results" where
  "validate_question_entity entity index =
     (case entity of
        PDict d \<Rightarrow>
          (let results = \<lparr>e_issues = [], e_warnings = []\<rparr>;
               results = entity_required [''@type'', ''name'', ''acceptedAnswer''] d index results;
               results = (if dict_get d ''@type'' \<noteq> PStr ''Question''
                          then add_e_issue (question_prefix index @ ''@type must be '' @ sq @ ''Question'' @ sq) results
                          else results);
               results = entity_name d index results;
               results = entity_answer d index results
           in Inr results)
      | PStr _ \<Rightarrow> Inl (no_attribute entity ''get'')
      | PList _ \<Rightarrow> Inl (no_attribute entity ''get'')
      | _ \<Rightarrow> Inl (not_container entity))"

record struct_results =
  s_valid :: bool
  s_issues :: "string list"
  s_warnings :: "string list"

definition add_s_issue :: "string \<Rightarrow> struct_results \<Rightarrow> struct_results" where
  "add_s_issue m r = r\<lparr>s_issues := s_issues r @ [m], s_valid := False\<rparr>"

text \<open>The loop over the required top-level fields (lines 88-92).\<close>

fun structure_required :: "string list \<Rightarrow> pydict \<Rightarrow> struct_results \<Rightarrow> struct_results" where
  "structure_required [] schema results = results"
| "structure_required (field # rest) schema results =
     structure_required rest schema
       (if \<not> dict_has schema field
        then add_s_issue (''Missing required field: '' @ field) results
        else results)"

text \<open>
  The loop over the entities (lines 114-117): an exception of the sub-check leaves the loop
  and the pass.
\<close>

fun structure_entities :: "pyval list \<Rightarrow> nat \<Rightarrow> struct_results \<Rightarrow> pyexn + struct_results" where
  "structure_entities [] i results = Inr results"
| "structure_entities (entity # rest) i results =
     (case validate_question_entity entity i of
        Inl e \<Rightarrow> Inl e
      | Inr entity_results \<Rightarrow>
          structure_entities rest (Suc i)
            (results\<lparr>s_issues := s_issues results @ e_issues entity_results,
                     s_warnings := s_warnings results @ e_warnings entity_results\<rparr>))"

text \<open>The checks of \<^verbatim>\<open>@context\<close> (lines 95-96) and of \<^verbatim>\<open>@type\<close> (lines 99-101).\<close>

definition structure_context :: "pydict \<Rightarrow> struct_results \<Rightarrow> struct_results" where
  "structure_context schema results =
     (case map_of schema ''@context'' of
        None \<Rightarrow> results
      | Some v \<Rightarrow>
          if v \<noteq> PStr ''https://schema.org''
          then results\<lparr>s_warnings := s_warnings results @
                 [''@context should be '' @ sq @ ''https://schema.org'' @ sq]\<rparr>
          else results)"

definition structure_type :: "pydict \<Rightarrow> struct_results \<Rightarrow> struct_results" where
  "structure_type schema results =
     (case map_of schema ''@type'' of
        None \<Rightarrow> results
      | Some v \<Rightarrow>
          if v \<noteq> PStr ''FAQPage''
          then add_s_issue (''@type must be '' @ sq @ ''FAQPage'' @ sq) results
          else results)"

text \<open>The check of \<^verbatim>\<open>mainEntity\<close> (lines 104-117).\<close>

definition structure_main_entity :: "pydict \<Rightarrow> struct_results \<Rightarrow> pyexn + struct_results" where
  "structure_main_entity schema results =
     (case map_of schema ''mainEntity'' of
        None \<Rightarrow> Inr results
      | Some main_entity \<Rightarrow>
          (case main_entity of
             PList es \<Rightarrow>
               if length es = 0 then Inr (add_s_issue ''mainEntity cannot be empty'' results)
               else structure_entities es 0 results
           | _ \<Rightarrow> Inr (add_s_issue ''mainEntity must be a list'' results)))"

text \<open>\<^verbatim>\<open>_validate_structure\<close> (lines 79-119).\<close>

definition validate_structure :: "pydict \<Rightarrow> pyexn + struct_results" where
  "validate_structure schema =
     (let results = \<lparr>s_valid = True, s_issues = [], s_warnings = []\<rparr>;
          results = structure_required [''@context'', ''@type'', ''mainEntity''] schema results;
          results = structure_context schema results;
          results = structure_type schema results
      in structure_main_entity schema results)"

section \<open>The content-quality pass\<close>

text \<open>
  Iterating a value and taking its length. A string yields its characters and a dictionary
  its keys; the other non-lists raise \<^verbatim>\<open>TypeError\<close>.
\<close>

fun py_iter :: "pyval \<Rightarrow> pyexn + pyval list" where
  "py_iter (PList xs) = Inr xs"
| "py_iter (PStr s) = Inr (map (\<lambda>c. PStr [c]) s)"
| "py_iter (PDict d) = Inr (map PStr (dict_keys d))"
| "py_iter v = Inl (not_iterable v)"

fun py_len :: "pyval \<Rightarrow> pyexn + nat" where
  "py_len (PList xs) = Inr (length xs)"
| "py_len (PStr s) = Inr (length s)"
| "py_len (PDict d) = Inr (length (dict_keys d))"
| "py_len v = Inl (no_len v)"

text \<open>
  \<^verbatim>\<open>[entity.get('name', '') for entity in main_entity if isinstance(entity, dict)]\<close>
  (lines 174 and 221).
\<close>

fun collect_questions :: "pyval list \<Rightarrow> pyval list" where
  "collect_questions [] = []"
| "collect_questions (PDict d # rest) = dict_get_or d ''name'' (PStr []) # collect_questions rest"
| "collect_questions (_ # rest) = collect_questions rest"

text \<open>
  \<^verbatim>\<open>len(set(questions))\<close>. Lists and dictionaries are unhashable and the first one met
  raises; booleans, integers and floats are equal as set elements when their values are,
  every other hashable value only to itself. \<open>py_eq\<close> is this equality of set elements; a
  set never holds the unhashable values.
\<close>

fun hashable :: "pyval \<Rightarrow> bool" where
  "hashable (PList _) = False"
| "hashable (PDict _) = False"
| "hashable _ = True"

fun hash_key :: "pyval \<Rightarrow> rat + pyval" where
  "hash_key (PBool b) = Inl (if b then 1 else 0)"
| "hash_key (PInt i) = Inl (of_int i)"
| "hash_key (PFloat x) = Inl x"
| "hash_key v = Inr v"

definition py_eq :: "pyval \<Rightarrow> pyval \<Rightarrow> bool" where
  "py_eq a b = (hash_key a = hash_key b)"

definition set_len :: "pyval list \<Rightarrow> pyexn + nat" where
  "set_len xs =
     (case find (\<lambda>v. \<not> hashable v) xs of
        Some v \<Rightarrow> Inl (unhashable v)
      | None \<Rightarrow> Inr (length (remdups (map hash_key xs))))"

record content_results =
  c_issues :: "string list"
  c_warnings :: "string list"
  c_suggestions :: "string list"

text \<open>
  The loop that gathers \<^verbatim>\<open>question_words\<close> (lines 180-184); its list is not read again,
  but \<^verbatim>\<open>entity['name'].lower()\<close> raises on a name that is not a string.
\<close>

fun question_words :: "pyval list \<Rightarrow> pyexn + string list" where
  "question_words [] = Inr []"
| "question_words (PDict d # rest) =
     (case map_of d ''name'' of
        None \<Rightarrow> question_words rest
      | Some name \<Rightarrow>
          (case name of
             PStr s \<Rightarrow>
               (case question_words rest of
                  Inl e \<Rightarrow> Inl e
                | Inr ws \<Rightarrow> Inr (split (lower s) @ ws))
           | _ \<Rightarrow> Inl (no_attribute name ''lower'')))"
| "question_words (_ # rest) = question_words rest"

text \<open>
  \<^verbatim>\<open>[words[0] for words in [q.split() for q in questions if q.split()]]\<close> (line 187): the
  first token of every question that has one, as authored.
\<close>

fun starters_of :: "pyval list \<Rightarrow> pyexn + string list" where
  "starters_of [] = Inr []"
| "starters_of (q # rest) =
     (case q of
        PStr s \<Rightarrow>
          (case starters_of rest of
             Inl e \<Rightarrow> Inl e
           | Inr ws \<Rightarrow> Inr (case split s of [] \<Rightarrow> ws | w # _ \<Rightarrow> w # ws))
      | _ \<Rightarrow> Inl (no_attribute q ''split''))"

text \<open>
  \<^verbatim>\<open>k < n * 0.7\<close> and \<^verbatim>\<open>k < n * 0.5\<close> for list lengths \<open>k\<close> and \<open>n\<close>. CPython compares
  the integer with the double exactly, and the double product is within a tenth of the
  exact one for every length a list can have, so the test is the one on exact fractions.
\<close>

definition lt_seven_tenths :: "nat \<Rightarrow> nat \<Rightarrow> bool" where
  "lt_seven_tenths k n = (10 * k < 7 * n)"

definition lt_half :: "nat \<Rightarrow> nat \<Rightarrow> bool" where
  "lt_half k n = (2 * k < n)"

text \<open>The diversity check (lines 179-189).\<close>

definition content_diversity ::
  "pyval \<Rightarrow> pyval list \<Rightarrow> pyval list \<Rightarrow> content_results \<Rightarrow> pyexn + content_results" where
  "content_diversity main_entity es questions results =
     (case py_len main_entity of
        Inl e \<Rightarrow> Inl e
      | Inr n \<Rightarrow>
          if n \<ge> 3 then
            (case question_words es of
               Inl e \<Rightarrow> Inl e
             | Inr words \<Rightarrow>
                 (case starters_of questions of
                    Inl e \<Rightarrow> Inl e
                  | Inr starters \<Rightarrow>
                      if lt_seven_tenths (length (remdups starters)) (length starters)
                      then Inr (results\<lparr>c_suggestions := c_suggestions results @
                             [''Consider varying question starters for better diversity'']\<rparr>)
                      else Inr results))
          else Inr results)"

text \<open>The answer check (lines 192-198); \<^verbatim>\<open>len(text)\<close> raises on a text without a length.\<close>

fun content_answers :: "pyval list \<Rightarrow> nat \<Rightarrow> content_results \<Rightarrow> pyexn + content_results" where
  "content_answers [] i results = Inr results"
| "content_answers (PDict d # rest) i results =
     (case map_of d ''acceptedAnswer'' of
        None \<Rightarrow> content_answers rest (Suc i) results
      | Some answer \<Rightarrow>
          (case answer of
             PDict a \<Rightarrow>
               (case map_of a ''text'' of
                  None \<Rightarrow> content_answers rest (Suc i) results
                | Some text \<Rightarrow>
                    (case py_len text of
                       Inl e \<Rightarrow> Inl e
                     | Inr n \<Rightarrow>
                         content_answers rest (Suc i)
                           (if n < 50
                            then results\<lparr>c_suggestions := c_suggestions results @
                                   [''Question '' @ str_nat (i + 1) @
                                    '': Consider expanding the answer for better value'']\<rparr>
                            else results)))
           | _ \<Rightarrow> content_answers rest (Suc i) results))"
| "content_answers (_ # rest) i results = content_answers rest (Suc i) results"

text \<open>\<^verbatim>\<open>_validate_content\<close> (lines 167-200).\<close>

definition validate_content :: "pydict \<Rightarrow> pyexn + content_results" where
  "validate_content schema =
     (let results = \<lparr>c_issues = [], c_warnings = [], c_suggestions = []\<rparr>;
          main_entity = dict_get_or schema ''mainEntity'' (PList [])
      in case py_iter main_entity of
           Inl e \<Rightarrow> Inl e
         | Inr es \<Rightarrow>
             (let questions = collect_questions es
              in case set_len questions of
                   Inl e \<Rightarrow> Inl e
                 | Inr n \<Rightarrow>
                     (let results = (if length questions \<noteq> n
                                     then results\<lparr>c_warnings := c_warnings results @
                                            [''Duplicate questions found'']\<rparr>
                                     else results)
                      in case content_diversity main_entity es questions results of
                           Inl e \<Rightarrow> Inl e
                         | Inr results \<Rightarrow> content_answers es 0 results)))"

section \<open>The SEO pass\<close>

record seo_results =
  q_warnings :: "string list"
  q_suggestions :: "string list"

definition common_patterns :: "string list" where
  "common_patterns = [''what'', ''how'', ''when'', ''where'', ''why'', ''who'']"

text \<open>
  \<^verbatim>\<open>sum(1 for q in questions for pattern in common_patterns if q.lower().startswith(pattern))\<close>
  (line 225); \<^verbatim>\<open>q.lower()\<close> raises on a question that is not a string.
\<close>

fun pattern_count :: "pyval list \<Rightarrow> pyexn + nat" where
  "pattern_count [] = Inr 0"
| "pattern_count (q # rest) =
     (case q of
        PStr s \<Rightarrow>
          (case pattern_count rest of
             Inl e \<Rightarrow> Inl e
           | Inr k \<Rightarrow> Inr (length (filter (\<lambda>pattern. prefix pattern (lower s)) common_patterns) + k))
      | _ \<Rightarrow> Inl (no_attribute q ''lower''))"

text \<open>\<^verbatim>\<open>_validate_seo_practices\<close> (lines 202-229).\<close>

definition validate_seo_practices :: "pydict \<Rightarrow> pyexn + seo_results" where
  "validate_seo_practices schema =
     (let results = \<lparr>q_warnings = [], q_suggestions = []\<rparr>;
          results = (if \<not> dict_has schema ''name''
                     then results\<lparr>q_suggestions := q_suggestions results @
                            [''Consider adding a '' @ sq @ ''name'' @ sq @ '' field for the FAQ page'']\<rparr>
                     else results);
          results = (if \<not> dict_has schema ''description''
                     then results\<lparr>q_suggestions := q_suggestions results @
                            [''Consider adding a '' @ sq @ ''description'' @ sq @ '' field for better SEO'']\<rparr>
                     else results);
          main_entity = dict_get_or schema ''mainEntity'' (PList [])
      in case py_len main_entity of
           Inl e \<Rightarrow> Inl e
         | Inr n \<Rightarrow>
             (let results = (if n < 3
                             then results\<lparr>q_warnings := q_warnings results @
                                    [''FAQ pages should have at least 3 questions for best SEO results'']\<rparr>
                             else if n > 10
                             then results\<lparr>q_warnings := q_warnings results @
                                    [''Consider limiting to 10 questions to avoid overwhelming users'']\<rparr>
                             else results)
              in case py_iter main_entity of
                   Inl e \<Rightarrow> Inl e
                 | Inr es \<Rightarrow>
                     (let questions = collect_questions es
                      in if questions \<noteq> [] then
                           (case pattern_count questions of
                              Inl e \<Rightarrow> Inl e
                            | Inr k \<Rightarrow>
                                if lt_half k (length questions)
                                then Inr (results\<lparr>q_suggestions := q_suggestions results @
                                       [''Consider using more common question patterns (What, How, When, etc.)'']\<rparr>)
                                else Inr results)
                         else Inr results)))"

section \<open>The orchestrator\<close>

record report =
  valid :: bool
  issues :: "string list"
  warnings :: "string list"
  suggestions :: "string list"
  google_validation :: pyval

text \<open>
  The \<^verbatim>\<open>except Exception\<close> clause (lines 73-77). It receives \<^verbatim>\<open>results\<close> as the
  statements before the exception left it.
\<close>

definition except_handler :: "report \<Rightarrow> pyexn \<Rightarrow> pyexn + report" where
  "except_handler results e =
     Inr (results\<lparr>valid := False, issues := issues results @ [''Validation error: '' @ str_exn e]\<rparr>)"

text \<open>
  \<^verbatim>\<open>validate_schema\<close> (lines 32-77). \<^verbatim>\<open>results.update(structure_results)\<close> replaces the
  keys \<^verbatim>\<open>valid\<close>, \<^verbatim>\<open>issues\<close> and \<^verbatim>\<open>warnings\<close>.
\<close>

definition validate_schema :: "pydict \<Rightarrow> pyexn + report" where
  "validate_schema schema =
     (let results = \<lparr>valid = True, issues = [], warnings = [], suggestions = [],
                     google_validation = PNone\<rparr>
      in case validate_structure schema of
           Inl e \<Rightarrow> except_handler results e
         | Inr structure_results \<Rightarrow>
             (let results = results\<lparr>valid := s_valid structure_results,
                                    issues := s_issues structure_results,
                                    warnings := s_warnings structure_results\<rparr>
              in case validate_content schema of
                   Inl e \<Rightarrow> except_handler results e
                 | Inr content_results \<Rightarrow>
                     (let results = results\<lparr>issues := issues results @ c_issues content_results,
                                            warnings := warnings results @ c_warnings content_results,
                                            suggestions := suggestions results @ c_suggestions content_results\<rparr>
                      in case validate_seo_practices schema of
                           Inl e \<Rightarrow> except_handler results e
                         | Inr seo_results \<Rightarrow>
                             (let results = results\<lparr>warnings := warnings results @ q_warnings seo_results,
                                                    suggestions := suggestions results @ q_suggestions seo_results\<rparr>;
                                  results = (if issues results \<noteq> [] then results\<lparr>valid := False\<rparr>
                                             else results)
                              in Inr results))))"

section \<open>The platform-eligibility check\<close>

record google_results =
  g_valid :: bool
  g_issues :: "string list"
  g_warnings :: "string list"
  rich_results :: bool

definition add_g_issue :: "string \<Rightarrow> google_results \<Rightarrow> google_results" where
  "add_g_issue m r = r\<lparr>g_valid := False, g_issues := g_issues r @ [m]\<rparr>"

text \<open>Truth value of a Python value, as \<^verbatim>\<open>not x\<close> reads it.\<close>

fun truthy :: "pyval \<Rightarrow> bool" where
  "truthy PNone = False"
| "truthy (PBool b) = b"
| "truthy (PInt i) = (i \<noteq> 0)"
| "truthy (PFloat x) = (x \<noteq> 0)"
| "truthy (PStr s) = (s \<noteq> [])"
| "truthy (PList xs) = (xs \<noteq> [])"
| "truthy (PDict d) = (d \<noteq> [])"

text \<open>
  The loop over the entities (lines 269-290). An exception leaves the loop with the results
  as they are then: \<^verbatim>\<open>answer.get('text')\<close> raises when \<^verbatim>\<open>acceptedAnswer\<close> is not a
  dictionary.
\<close>

fun google_entities ::
  "pyval list \<Rightarrow> nat \<Rightarrow> google_results \<Rightarrow> (pyexn \<times> google_results) + google_results" where
  "google_entities [] i results = Inr results"
| "google_entities (PDict d # rest) i results =
     (let results = (if dict_get d ''@type'' \<noteq> PStr ''Question''
                     then add_g_issue (''Question '' @ str_nat (i + 1) @ '' has invalid type'') results
                     else results);
          results = (if \<not> truthy (dict_get d ''name'')
                     then add_g_issue (''Question '' @ str_nat (i + 1) @ '' missing question text'') results
                     else results);
          answer = dict_get_or d ''acceptedAnswer'' (PDict [])
      in case answer of
           PDict a \<Rightarrow>
             (let results = (if dict_get a ''@type'' \<noteq> PStr ''Answer''
                             then add_g_issue (''Question '' @ str_nat (i + 1) @ '' has invalid answer format'') results
                             else results);
                  results = (if \<not> truthy (dict_get a ''text'')
                             then add_g_issue (''Question '' @ str_nat (i + 1) @ '' missing answer text'') results
                             else results)
              in google_entities rest (Suc i) results)
         | _ \<Rightarrow>
             Inl (no_attribute answer ''get'',
                  add_g_issue (''Question '' @ str_nat (i + 1) @ '' has invalid answer format'') results))"
| "google_entities (_ # rest) i results =
     google_entities rest (Suc i)
       (add_g_issue (''Question '' @ str_nat (i + 1) @ '' is not properly formatted'') results)"

definition google_handler :: "google_results \<Rightarrow> pyexn \<Rightarrow> pyexn + google_results" where
  "google_handler results e =
     Inr (results\<lparr>g_valid := False, g_issues := g_issues results @ [''Validation error: '' @ str_exn e]\<rparr>)"

text \<open>\<^verbatim>\<open>validate_with_google\<close> (lines 231-307).\<close>

definition validate_with_google :: "pydict \<Rightarrow> pyexn + google_results" where
  "validate_with_google schema =
     (let results = \<lparr>g_valid = True, g_issues = [], g_warnings = [], rich_results = True\<rparr>
      in if dict_get schema ''@type'' \<noteq> PStr ''FAQPage''
         then Inr (add_g_issue ''Schema type not supported for rich results'' results)
         else
           (let main_entity = dict_get_or schema ''mainEntity'' (PList [])
            in case py_len main_entity of
                 Inl e \<Rightarrow> google_handler results e
               | Inr n \<Rightarrow>
                   if n < 1 then Inr (add_g_issue ''No questions found'' results)
                   else
                     (case py_iter main_entity of
                        Inl e \<Rightarrow> google_handler results e
                      | Inr es \<Rightarrow>
                          (case google_entities es 0 results of
                             Inl (e, results) \<Rightarrow> google_handler results e
                           | Inr results \<Rightarrow>
                               if g_valid results \<and> n \<ge> 3
                               then Inr (results\<lparr>rich_results := True,
                                                  g_warnings := g_warnings results @
                                                    [''Schema is eligible for rich results'']\<rparr>)
                               else Inr (results\<lparr>rich_results := False,
                                                  g_warnings := g_warnings results @
                                                    [''Schema may not be eligible for rich results'']\<rparr>)))))"

section \<open>Tokens of a question\<close>

text \<open>
  The notions of claim C6, stated without \<open>split\<close>: a question has a token when one of
  its characters is not a space; its first token is the run of non-space characters after
  the leading spaces, in the case it was written in. The lemmas \<open>split_eq_Nil_iff\<close> and
  \<open>split_first_token\<close> below relate them to what \<^verbatim>\<open>q.split()\<close> computes.
\<close>

definition has_token :: "string \<Rightarrow> bool" where
  "has_token s = (\<exists>c\<in>set s. \<not> is_space c)"

definition first_token :: "string \<Rightarrow> string" where
  "first_token s = takeWhile (\<lambda>c. \<not> is_space c) (dropWhile is_space s)"

section \<open>Entities of the eligibility check\<close>

text \<open>
  Two conditions on an element of \<^verbatim>\<open>mainEntity\<close>, read off the loop of
  \<^verbatim>\<open>validate_with_google\<close>. The first holds when the element does not make
  \<^verbatim>\<open>answer.get\<close> raise: it is not a dictionary, or its \<^verbatim>\<open>acceptedAnswer\<close> is absent or a
  dictionary. The second holds when the element passes every check of the loop.
\<close>

fun answer_is_mapping :: "pyval \<Rightarrow> bool" where
  "answer_is_mapping (PDict d) =
     (case dict_get_or d ''acceptedAnswer'' (PDict []) of PDict _ \<Rightarrow> True | _ \<Rightarrow> False)"
| "answer_is_mapping _ = True"

fun google_entity_ok :: "pyval \<Rightarrow> bool" where
  "google_entity_ok (PDict d) =
     (dict_get d ''@type'' = PStr ''Question'' \<and> truthy (dict_get d ''name'') \<and>
      (case dict_get_or d ''acceptedAnswer'' (PDict []) of
         PDict a \<Rightarrow> dict_get a ''@type'' = PStr ''Answer'' \<and> truthy (dict_get a ''text'')
       | _ \<Rightarrow> False))"
| "google_entity_ok _ = False"

section \<open>Properties of the question-entity sub-check\<close>

lemma str_nat_digits:
  "str_nat 0 = ''0''" "str_nat 1 = ''1''" "str_nat 2 = ''2''" "str_nat 3 = ''3''"
  "str_nat (Suc 0) = ''1''" "str_nat (Suc (Suc 0)) = ''2''"
  by code_simp+

lemma all_dropWhile_iff: "(\<forall>x\<in>set (dropWhile P xs). P x) \<longleftrightarrow> (\<forall>x\<in>set xs. P x)"
  by (induction xs) auto

lemma strip_eq_Nil_iff: "strip s = [] \<longleftrightarrow> (\<forall>c\<in>set s. is_space c)"
  by (simp add: strip_def dropWhile_eq_Nil_conv all_dropWhile_iff)

lemma entity_required_issues:
  "e_issues (entity_required fs d i r) =
     e_issues r @ map (\<lambda>f. question_prefix i @ ''Missing required field '' @ sq @ f @ sq) (filter (\<lambda>f. \<not> dict_has d f) fs)"
  by (induction fs arbitrary: r) (auto simp: add_e_issue_def)

lemma entity_required_warnings:
  "e_warnings (entity_required fs d i r) = e_warnings r"
  by (induction fs arbitrary: r) (auto simp: add_e_issue_def)

lemma entity_name_warnings:
  "map_of d ''name'' = Some (PStr s) \<Longrightarrow> strip s \<noteq> [] \<Longrightarrow>
   e_warnings (entity_name d i r) = e_warnings r @
     (if length s < 10 then [question_prefix i @ ''Question is very short'']
      else if 200 < length s then [question_prefix i @ ''Question is very long''] else [])"
  by (simp add: entity_name_def add_e_warning_def)

lemma entity_answer_warnings:
  "map_of d ''acceptedAnswer'' = Some (PDict a) \<Longrightarrow> map_of a ''text'' = Some (PStr t) \<Longrightarrow> strip t \<noteq> [] \<Longrightarrow>
   e_warnings (entity_answer d i r) = e_warnings r @
     (if length t < 20 then [question_prefix i @ ''Answer is very short'']
      else if 1000 < length t then [question_prefix i @ ''Answer is very long''] else [])"
  by (simp add: entity_answer_def entity_answer_text_def add_e_warning_def add_e_issue_def)

lemma entity_name_warnings_subset:
  "set (e_warnings (entity_name d i r)) \<subseteq> set (e_warnings r) \<union>
     {question_prefix i @ ''Question is very short'', question_prefix i @ ''Question is very long''}"
  by (auto simp: entity_name_def add_e_warning_def add_e_issue_def split: option.splits pyval.splits if_splits)

lemma entity_answer_warnings_subset:
  "set (e_warnings (entity_answer d i r)) \<subseteq> set (e_warnings r) \<union>
     {question_prefix i @ ''Answer is very short'', question_prefix i @ ''Answer is very long''}"
  by (auto simp: entity_answer_def entity_answer_text_def add_e_warning_def add_e_issue_def split: option.splits pyval.splits if_splits)

lemma entity_answer_warnings_mono:
  "set (e_warnings r) \<subseteq> set (e_warnings (entity_answer d i r))"
  by (auto simp: entity_answer_def entity_answer_text_def add_e_warning_def add_e_issue_def split: option.splits pyval.splits if_splits)


lemma validate_question_entity_dict:
  "validate_question_entity (PDict d) i =
     Inr (entity_answer d i (entity_name d i
       (if dict_get d ''@type'' \<noteq> PStr ''Question''
        then add_e_issue (question_prefix i @ ''@type must be '' @ sq @ ''Question'' @ sq)
               (entity_required [''@type'', ''name'', ''acceptedAnswer''] d i \<lparr>e_issues = [], e_warnings = []\<rparr>)
        else entity_required [''@type'', ''name'', ''acceptedAnswer''] d i \<lparr>e_issues = [], e_warnings = []\<rparr>)))"
  by (simp add: validate_question_entity_def Let_def)

text \<open>
  C8. Length warnings use strict comparisons. For an entity whose \<^verbatim>\<open>name\<close> is a string that
  is not blank, the "very short" warning is present exactly when the name has fewer than 10
  characters and the "very long" warning exactly when it has more than 200, so lengths 10
  and 200 get neither; for a string answer text that is not blank the bounds are 20 and
  1000. The question warnings and the answer warnings are decided independently of each
  other on the same entity.
\<close>

theorem length_boundaries:
  assumes "validate_question_entity (PDict d) i = Inr r"
  shows "(\<forall>s. map_of d ''name'' = Some (PStr s) \<and> strip s \<noteq> [] \<longrightarrow>
            ((question_prefix i @ ''Question is very short'' \<in> set (e_warnings r)) = (length s < 10)) \<and>
            ((question_prefix i @ ''Question is very long'' \<in> set (e_warnings r)) = (200 < length s)))
       \<and> (\<forall>a t. map_of d ''acceptedAnswer'' = Some (PDict a) \<and> map_of a ''text'' = Some (PStr t) \<and> strip t \<noteq> [] \<longrightarrow>
            ((question_prefix i @ ''Answer is very short'' \<in> set (e_warnings r)) = (length t < 20)) \<and>
            ((question_prefix i @ ''Answer is very long'' \<in> set (e_warnings r)) = (1000 < length t)))"
proof -
  define r1 where "r1 = (if dict_get d ''@type'' \<noteq> PStr ''Question''
        then add_e_issue (question_prefix i @ ''@type must be '' @ sq @ ''Question'' @ sq)
               (entity_required [''@type'', ''name'', ''acceptedAnswer''] d i \<lparr>e_issues = [], e_warnings = []\<rparr>)
        else entity_required [''@type'', ''name'', ''acceptedAnswer''] d i \<lparr>e_issues = [], e_warnings = []\<rparr>)"
  define r2 where "r2 = entity_name d i r1"
  have r: "r = entity_answer d i r2"
    using assms unfolding validate_question_entity_dict r2_def r1_def by simp
  have w1: "e_warnings r1 = []"
    by (simp add: r1_def add_e_issue_def entity_required_warnings)
  have sub2: "set (e_warnings r2) \<subseteq> {question_prefix i @ ''Question is very short'', question_prefix i @ ''Question is very long''}"
    using entity_name_warnings_subset [of d i r1] by (simp add: r2_def w1)
  have lo: "set (e_warnings r2) \<subseteq> set (e_warnings r)"
    unfolding r by (rule entity_answer_warnings_mono)
  have hi: "set (e_warnings r) \<subseteq> set (e_warnings r2) \<union>
      {question_prefix i @ ''Answer is very short'', question_prefix i @ ''Answer is very long''}"
    unfolding r by (rule entity_answer_warnings_subset)
  have name_part: "((question_prefix i @ ''Question is very short'' \<in> set (e_warnings r)) = (length s < 10)) \<and>
            ((question_prefix i @ ''Question is very long'' \<in> set (e_warnings r)) = (200 < length s))"
    if n: "map_of d ''name'' = Some (PStr s)" "strip s \<noteq> []" for s
  proof -
    have w2: "e_warnings r2 = (if length s < 10 then [question_prefix i @ ''Question is very short'']
      else if 200 < length s then [question_prefix i @ ''Question is very long''] else [])"
      using entity_name_warnings [OF n, of i r1] by (simp add: r2_def w1)
    have a: "(question_prefix i @ ''Question is very short'' \<in> set (e_warnings r)) =
             (question_prefix i @ ''Question is very short'' \<in> set (e_warnings r2))"
      using lo hi by auto
    have b: "(question_prefix i @ ''Question is very long'' \<in> set (e_warnings r)) =
             (question_prefix i @ ''Question is very long'' \<in> set (e_warnings r2))"
      using lo hi by auto
    show ?thesis unfolding a b w2 by simp
  qed
  have answer_part: "((question_prefix i @ ''Answer is very short'' \<in> set (e_warnings r)) = (length t < 20)) \<and>
            ((question_prefix i @ ''Answer is very long'' \<in> set (e_warnings r)) = (1000 < length t))"
    if n: "map_of d ''acceptedAnswer'' = Some (PDict a)" "map_of a ''text'' = Some (PStr t)" "strip t \<noteq> []" for a t
  proof -
    have w: "e_warnings r = e_warnings r2 @ (if length t < 20 then [question_prefix i @ ''Answer is very short'']
      else if 1000 < length t then [question_prefix i @ ''Answer is very long''] else [])"
      unfolding r by (rule entity_answer_warnings [OF n])
    have a: "question_prefix i @ ''Answer is very short'' \<notin> set (e_warnings r2)"
      using sub2 by auto
    have b: "question_prefix i @ ''Answer is very long'' \<notin> set (e_warnings r2)"
      using sub2 by auto
    show ?thesis unfolding w using a b by simp
  qed
  show ?thesis using name_part answer_part by blast
qed

theorem length_boundaries_witness:
  "validate_question_entity (PDict [(''@type'', PStr ''Question''), (''name'', PStr ''What?''),
      (''acceptedAnswer'', PDict [(''@type'', PStr ''Answer''), (''text'', PStr (replicate 1500 (CHR ''a'')))])]) 0
    = Inr \<lparr>e_issues = [], e_warnings = [''Question 0: Question is very short'', ''Question 0: Answer is very long'']\<rparr>
   \<and> ''Question 0: Question is very short'' \<in> set [''Question 0: Question is very short'', ''Question 0: Answer is very long'']
   \<and> ''Question 0: Answer is very long'' \<in> set [''Question 0: Question is very short'', ''Question 0: Answer is very long'']"
proof -
  let ?a = "[(''@type'', PStr ''Answer''), (''text'', PStr (replicate 1500 (CHR ''a'')))]"
  let ?d = "[(''@type'', PStr ''Question''), (''name'', PStr ''What?''), (''acceptedAnswer'', PDict ?a)]"
  have ns: "strip (replicate 1500 (CHR ''a'')) \<noteq> []"
    by (simp add: strip_eq_Nil_iff is_space_def)
  have ev: "validate_question_entity (PDict ?d) 0
    = Inr \<lparr>e_issues = [], e_warnings = [''Question 0: Question is very short'', ''Question 0: Answer is very long'']\<rparr>"
    using ns
    by (simp add: validate_question_entity_def Let_def entity_name_def entity_answer_def entity_answer_text_def
        add_e_warning_def add_e_issue_def dict_has_def dict_get_def dict_get_or_def question_prefix_def
        str_nat_digits strip_def is_space_def)
  from length_boundaries [OF ev] show ?thesis using ev by simp
qed

lemma dict_get_neq_iff: "(dict_get d k \<noteq> PStr s) = (map_of d k \<noteq> Some (PStr s))"
  by (simp add: dict_get_def dict_get_or_def split: option.splits)

lemma entity_name_issues_mono: "set (e_issues r) \<subseteq> set (e_issues (entity_name d i r))"
  by (auto simp: entity_name_def add_e_warning_def add_e_issue_def split: option.splits pyval.splits)

lemma entity_answer_issues_mono: "set (e_issues r) \<subseteq> set (e_issues (entity_answer d i r))"
  by (auto simp: entity_answer_def entity_answer_text_def add_e_warning_def add_e_issue_def split: option.splits pyval.splits)

lemma entity_name_type_msg:
  "(question_prefix i @ ''@type must be '' @ sq @ ''Question'' @ sq \<in> set (e_issues (entity_name d i r))) =
   (question_prefix i @ ''@type must be '' @ sq @ ''Question'' @ sq \<in> set (e_issues r))"
  by (auto simp: entity_name_def add_e_warning_def add_e_issue_def sq_def split: option.splits pyval.splits)

lemma entity_answer_type_msg:
  "(question_prefix i @ ''@type must be '' @ sq @ ''Question'' @ sq \<in> set (e_issues (entity_answer d i r))) =
   (question_prefix i @ ''@type must be '' @ sq @ ''Question'' @ sq \<in> set (e_issues r))"
  by (auto simp: entity_answer_def entity_answer_text_def add_e_warning_def add_e_issue_def sq_def split: option.splits pyval.splits)

lemma entity_required_type_msg:
  "question_prefix i @ ''@type must be '' @ sq @ ''Question'' @ sq
     \<notin> set (e_issues (entity_required fs d i \<lparr>e_issues = [], e_warnings = []\<rparr>))"
  by (auto simp: entity_required_issues sq_def)

text \<open>
  C4, as the code has it. The issue "@type must be 'Question'" is raised exactly when the
  entity's \<^verbatim>\<open>@type\<close> is not the string \<^verbatim>\<open>Question\<close>, absence included
  (\<^verbatim>\<open>entity.get('@type')\<close> is \<^verbatim>\<open>None\<close> then): an entity without \<^verbatim>\<open>@type\<close> gets the
  missing-required-field issue and the type issue, both.
\<close>

theorem type_mismatch_issue:
  assumes "validate_question_entity (PDict d) i = Inr r"
  shows "((question_prefix i @ ''@type must be '' @ sq @ ''Question'' @ sq \<in> set (e_issues r)) =
            (map_of d ''@type'' \<noteq> Some (PStr ''Question'')))
       \<and> (map_of d ''@type'' = None \<longrightarrow>
            question_prefix i @ ''Missing required field '' @ sq @ ''@type'' @ sq \<in> set (e_issues r) \<and>
            question_prefix i @ ''@type must be '' @ sq @ ''Question'' @ sq \<in> set (e_issues r))"
proof -
  define r0 where "r0 = entity_required [''@type'', ''name'', ''acceptedAnswer''] d i \<lparr>e_issues = [], e_warnings = []\<rparr>"
  define r1 where "r1 = (if dict_get d ''@type'' \<noteq> PStr ''Question''
        then add_e_issue (question_prefix i @ ''@type must be '' @ sq @ ''Question'' @ sq) r0 else r0)"
  have r: "r = entity_answer d i (entity_name d i r1)"
    using assms unfolding validate_question_entity_dict r1_def r0_def by simp
  have no0: "question_prefix i @ ''@type must be '' @ sq @ ''Question'' @ sq \<notin> set (e_issues r0)"
    unfolding r0_def by (rule entity_required_type_msg)
  have t1: "(question_prefix i @ ''@type must be '' @ sq @ ''Question'' @ sq \<in> set (e_issues r1)) =
            (map_of d ''@type'' \<noteq> Some (PStr ''Question''))"
    using no0 by (simp add: r1_def add_e_issue_def dict_get_neq_iff)
  have first: "(question_prefix i @ ''@type must be '' @ sq @ ''Question'' @ sq \<in> set (e_issues r)) =
            (map_of d ''@type'' \<noteq> Some (PStr ''Question''))"
    unfolding r entity_answer_type_msg entity_name_type_msg by (rule t1)
  have m0: "question_prefix i @ ''Missing required field '' @ sq @ ''@type'' @ sq \<in> set (e_issues r0)"
    if "map_of d ''@type'' = None"
    using that by (simp add: r0_def entity_required_issues dict_has_def del: entity_required.simps)
  have sub: "set (e_issues r0) \<subseteq> set (e_issues r)"
  proof -
    have "set (e_issues r0) \<subseteq> set (e_issues r1)"
      by (auto simp: r1_def add_e_issue_def)
    also have "\<dots> \<subseteq> set (e_issues (entity_name d i r1))"
      by (rule entity_name_issues_mono)
    also have "\<dots> \<subseteq> set (e_issues r)"
      unfolding r by (rule entity_answer_issues_mono)
    finally show ?thesis .
  qed
  show ?thesis using first m0 sub by auto
qed

theorem type_mismatch_issue_witness:
  "validate_question_entity (PDict [(''name'', PStr ''What are your office hours?'')]) 3
     = Inr \<lparr>e_issues = [''Question 3: Missing required field '' @ sq @ ''@type'' @ sq,
                        ''Question 3: Missing required field '' @ sq @ ''acceptedAnswer'' @ sq,
                        ''Question 3: @type must be '' @ sq @ ''Question'' @ sq],
            e_warnings = []\<rparr>
   \<and> map_of [(''name'', PStr ''What are your office hours?'')] ''@type'' = None
   \<and> question_prefix 3 @ ''Missing required field '' @ sq @ ''@type'' @ sq
        \<in> set [''Question 3: Missing required field '' @ sq @ ''@type'' @ sq,
                        ''Question 3: Missing required field '' @ sq @ ''acceptedAnswer'' @ sq,
                        ''Question 3: @type must be '' @ sq @ ''Question'' @ sq]
   \<and> question_prefix 3 @ ''@type must be '' @ sq @ ''Question'' @ sq
        \<in> set [''Question 3: Missing required field '' @ sq @ ''@type'' @ sq,
                        ''Question 3: Missing required field '' @ sq @ ''acceptedAnswer'' @ sq,
                        ''Question 3: @type must be '' @ sq @ ''Question'' @ sq]"
proof -
  let ?d = "[(''name'', PStr ''What are your office hours?'')]"
  have ev: "validate_question_entity (PDict ?d) 3
     = Inr \<lparr>e_issues = [''Question 3: Missing required field '' @ sq @ ''@type'' @ sq,
                        ''Question 3: Missing required field '' @ sq @ ''acceptedAnswer'' @ sq,
                        ''Question 3: @type must be '' @ sq @ ''Question'' @ sq],
            e_warnings = []\<rparr>"
    by (simp add: validate_question_entity_def Let_def entity_name_def entity_answer_def
        add_e_warning_def add_e_issue_def dict_has_def dict_get_def dict_get_or_def question_prefix_def
        str_nat_digits strip_def is_space_def)
  from type_mismatch_issue [OF ev] show ?thesis using ev by simp
qed

text \<open>
  The claim that the type issue is raised only when \<^verbatim>\<open>@type\<close> is present fails on an
  entity that lacks \<^verbatim>\<open>@type\<close> and is well formed otherwise.
\<close>

theorem type_mismatch_only_when_present_counterexample:
  "\<not> dict_has [(''name'', PStr ''What are your office hours?''),
        (''acceptedAnswer'', PDict [(''@type'', PStr ''Answer''), (''text'', PStr ''Monday through Friday, 8 AM to 5 PM.'')])] ''@type''
   \<and> validate_question_entity (PDict [(''name'', PStr ''What are your office hours?''),
        (''acceptedAnswer'', PDict [(''@type'', PStr ''Answer''), (''text'', PStr ''Monday through Friday, 8 AM to 5 PM.'')])]) 0
     = Inr \<lparr>e_issues = [''Question 0: Missing required field '' @ sq @ ''@type'' @ sq,
                        ''Question 0: @type must be '' @ sq @ ''Question'' @ sq],
            e_warnings = []\<rparr>"
  by (simp add: validate_question_entity_def Let_def entity_name_def entity_answer_def entity_answer_text_def
        add_e_warning_def add_e_issue_def dict_has_def dict_get_def dict_get_or_def question_prefix_def
        str_nat_digits strip_def is_space_def)

section \<open>Properties of the structural pass\<close>

lemma structure_required_issues:
  "s_issues (structure_required fs schema r) =
     s_issues r @ map (\<lambda>f. ''Missing required field: '' @ f) (filter (\<lambda>f. \<not> dict_has schema f) fs)"
  by (induction fs arbitrary: r) (auto simp: add_s_issue_def)

lemma structure_required_warnings:
  "s_warnings (structure_required fs schema r) = s_warnings r"
  by (induction fs arbitrary: r) (auto simp: add_s_issue_def)

lemma structure_required_flagged:
  "s_valid r \<or> s_issues r \<noteq> [] \<Longrightarrow>
   s_valid (structure_required fs schema r) \<or> s_issues (structure_required fs schema r) \<noteq> []"
  by (induction fs arbitrary: r) (auto simp: add_s_issue_def)

lemma structure_entities_flagged:
  "structure_entities es i r = Inr r' \<Longrightarrow> s_valid r \<or> s_issues r \<noteq> [] \<Longrightarrow>
   s_valid r' \<or> s_issues r' \<noteq> []"
proof (induction es arbitrary: i r)
  case Nil
  then show ?case by simp
next
  case (Cons entity rest)
  from Cons.prems(1) obtain er where
    er: "validate_question_entity entity i = Inr er" and
    rest: "structure_entities rest (Suc i)
             (r\<lparr>s_issues := s_issues r @ e_issues er, s_warnings := s_warnings r @ e_warnings er\<rparr>) = Inr r'"
    by (auto split: sum.splits)
  show ?case
    by (rule Cons.IH [OF rest]) (use Cons.prems(2) in auto)
qed

text \<open>Whenever the structural pass clears its \<^verbatim>\<open>valid\<close> flag it has recorded an issue.\<close>

lemma structure_context_issues:
  "s_issues (structure_context schema r) = s_issues r" "s_valid (structure_context schema r) = s_valid r"
  by (auto simp: structure_context_def split: option.splits)

lemma structure_type_issues_mono:
  "set (s_issues r) \<subseteq> set (s_issues (structure_type schema r))"
  by (auto simp: structure_type_def add_s_issue_def split: option.splits)

lemma structure_type_flagged:
  "s_valid r \<or> s_issues r \<noteq> [] \<Longrightarrow>
   s_valid (structure_type schema r) \<or> s_issues (structure_type schema r) \<noteq> []"
  by (auto simp: structure_type_def add_s_issue_def split: option.splits)

lemma structure_main_entity_flagged:
  assumes "structure_main_entity schema r = Inr r'" and "s_valid r \<or> s_issues r \<noteq> []"
  shows "s_valid r' \<or> s_issues r' \<noteq> []"
proof (cases "map_of schema ''mainEntity''")
  case None
  with assms show ?thesis by (simp add: structure_main_entity_def)
next
  case (Some main_entity)
  show ?thesis
  proof (cases main_entity)
    case (PList es)
    show ?thesis
    proof (cases "es = []")
      case True
      with assms(1) Some PList show ?thesis
        by (auto simp: structure_main_entity_def add_s_issue_def)
    next
      case False
      with assms(1) Some PList have "structure_entities es 0 r = Inr r'"
        by (simp add: structure_main_entity_def)
      from structure_entities_flagged [OF this assms(2)] show ?thesis .
    qed
  qed (use assms(1) Some in \<open>auto simp: structure_main_entity_def add_s_issue_def\<close>)
qed

lemma validate_structure_flagged:
  assumes "validate_structure schema = Inr st"
  shows "s_valid st \<or> s_issues st \<noteq> []"
proof -
  define r1 where "r1 = structure_required [''@context'', ''@type'', ''mainEntity''] schema
    \<lparr>s_valid = True, s_issues = [], s_warnings = []\<rparr>"
  have f1: "s_valid r1 \<or> s_issues r1 \<noteq> []"
    unfolding r1_def by (rule structure_required_flagged) simp
  then have f2: "s_valid (structure_context schema r1) \<or> s_issues (structure_context schema r1) \<noteq> []"
    by (simp add: structure_context_issues)
  have "structure_main_entity schema (structure_type schema (structure_context schema r1)) = Inr st"
    using assms by (simp only: validate_structure_def Let_def r1_def)
  from structure_main_entity_flagged [OF this structure_type_flagged [OF f2]] show ?thesis .
qed

lemma validate_structure_absent:
  assumes "map_of schema ''mainEntity'' = None"
  shows "\<exists>st. validate_structure schema = Inr st \<and>
              ''Missing required field: mainEntity'' \<in> set (s_issues st)"
proof -
  define r1 where "r1 = structure_required [''@context'', ''@type'', ''mainEntity''] schema
    \<lparr>s_valid = True, s_issues = [], s_warnings = []\<rparr>"
  have "''Missing required field: mainEntity'' \<in> set (s_issues r1)"
    using assms by (simp add: r1_def structure_required_issues dict_has_def del: structure_required.simps)
  then have "''Missing required field: mainEntity'' \<in> set (s_issues (structure_context schema r1))"
    by (simp add: structure_context_issues)
  then have i3: "''Missing required field: mainEntity''
      \<in> set (s_issues (structure_type schema (structure_context schema r1)))"
    using structure_type_issues_mono by blast
  have "validate_structure schema = Inr (structure_type schema (structure_context schema r1))"
    using assms by (simp only: validate_structure_def Let_def r1_def structure_main_entity_def option.case)
  with i3 show ?thesis by blast
qed

section \<open>Properties of the orchestrator\<close>

lemma validate_schema_structure_raises:
  "validate_structure schema = Inl e \<Longrightarrow>
   validate_schema schema =
     Inr \<lparr>valid = False, issues = [''Validation error: '' @ str_exn e], warnings = [],
          suggestions = [], google_validation = PNone\<rparr>"
  by (simp add: validate_schema_def except_handler_def)

lemma validate_schema_content_raises:
  "validate_structure schema = Inr st \<Longrightarrow> validate_content schema = Inl e \<Longrightarrow>
   validate_schema schema =
     Inr \<lparr>valid = False, issues = s_issues st @ [''Validation error: '' @ str_exn e],
          warnings = s_warnings st, suggestions = [], google_validation = PNone\<rparr>"
  by (simp add: validate_schema_def except_handler_def)

lemma validate_schema_seo_raises:
  "validate_structure schema = Inr st \<Longrightarrow> validate_content schema = Inr c \<Longrightarrow>
   validate_seo_practices schema = Inl e \<Longrightarrow>
   validate_schema schema =
     Inr \<lparr>valid = False, issues = s_issues st @ c_issues c @ [''Validation error: '' @ str_exn e],
          warnings = s_warnings st @ c_warnings c, suggestions = c_suggestions c,
          google_validation = PNone\<rparr>"
  by (simp add: validate_schema_def except_handler_def)

lemma validate_schema_returns:
  "validate_structure schema = Inr st \<Longrightarrow> validate_content schema = Inr c \<Longrightarrow>
   validate_seo_practices schema = Inr s \<Longrightarrow>
   validate_schema schema =
     Inr \<lparr>valid = (s_valid st \<and> s_issues st @ c_issues c = []), issues = s_issues st @ c_issues c,
          warnings = s_warnings st @ c_warnings c @ q_warnings s,
          suggestions = c_suggestions c @ q_suggestions s, google_validation = PNone\<rparr>"
  by (simp add: validate_schema_def Let_def)

text \<open>
  C2. The report of \<^verbatim>\<open>validate_schema\<close> has \<^verbatim>\<open>valid\<close> true exactly when its list of
  issues is empty, for every document; warnings and suggestions play no part in it.
\<close>

theorem valid_iff_no_issues:
  assumes "validate_schema schema = Inr r"
  shows "valid r = (issues r = [])"
proof (cases "validate_structure schema")
  case (Inl e)
  from assms show ?thesis
    unfolding validate_schema_structure_raises [OF Inl] by auto
next
  case st: (Inr st)
  note flagged = validate_structure_flagged [OF st]
  show ?thesis
  proof (cases "validate_content schema")
    case (Inl e)
    from assms show ?thesis
      unfolding validate_schema_content_raises [OF st Inl] by auto
  next
    case c: (Inr c)
    show ?thesis
    proof (cases "validate_seo_practices schema")
      case (Inl e)
      from assms show ?thesis
        unfolding validate_schema_seo_raises [OF st c Inl] by auto
    next
      case (Inr s)
      from assms flagged show ?thesis
        unfolding validate_schema_returns [OF st c Inr] by auto
    qed
  qed
qed

theorem valid_iff_no_issues_witness:
  "validate_schema [(''@type'', PStr ''Article'')] =
     Inr \<lparr>valid = False,
          issues = [''Missing required field: @context'', ''Missing required field: mainEntity'',
                    ''@type must be '' @ sq @ ''FAQPage'' @ sq],
          warnings = [''FAQ pages should have at least 3 questions for best SEO results''],
          suggestions = [''Consider adding a '' @ sq @ ''name'' @ sq @ '' field for the FAQ page'',
                         ''Consider adding a '' @ sq @ ''description'' @ sq @ '' field for better SEO''],
          google_validation = PNone\<rparr>
   \<and> False = ([''Missing required field: @context'', ''Missing required field: mainEntity'',
                    ''@type must be '' @ sq @ ''FAQPage'' @ sq] = [])"
proof -
  have st: "validate_structure [(''@type'', PStr ''Article'')] =
      Inr \<lparr>s_valid = False, s_issues = [''Missing required field: @context'', ''Missing required field: mainEntity'',
                    ''@type must be '' @ sq @ ''FAQPage'' @ sq], s_warnings = []\<rparr>"
    by (simp add: validate_structure_def structure_context_def structure_type_def structure_main_entity_def Let_def dict_has_def add_s_issue_def)
  have c: "validate_content [(''@type'', PStr ''Article'')] =
      Inr \<lparr>c_issues = [], c_warnings = [], c_suggestions = []\<rparr>"
    by (simp add: validate_content_def Let_def dict_get_or_def set_len_def content_diversity_def)
  have s: "validate_seo_practices [(''@type'', PStr ''Article'')] =
      Inr \<lparr>q_warnings = [''FAQ pages should have at least 3 questions for best SEO results''],
           q_suggestions = [''Consider adding a '' @ sq @ ''name'' @ sq @ '' field for the FAQ page'',
                         ''Consider adding a '' @ sq @ ''description'' @ sq @ '' field for better SEO'']\<rparr>"
    by (simp add: validate_seo_practices_def Let_def dict_get_or_def dict_has_def)
  have ev: "validate_schema [(''@type'', PStr ''Article'')] =
     Inr \<lparr>valid = False,
          issues = [''Missing required field: @context'', ''Missing required field: mainEntity'',
                    ''@type must be '' @ sq @ ''FAQPage'' @ sq],
          warnings = [''FAQ pages should have at least 3 questions for best SEO results''],
          suggestions = [''Consider adding a '' @ sq @ ''name'' @ sq @ '' field for the FAQ page'',
                         ''Consider adding a '' @ sq @ ''description'' @ sq @ '' field for better SEO''],
          google_validation = PNone\<rparr>"
    unfolding validate_schema_returns [OF st c s] by simp
  from valid_iff_no_issues [OF ev] show ?thesis using ev by simp
qed

text \<open>
  C1. \<^verbatim>\<open>validate_schema\<close> returns a report for every document and raises nothing. When a
  pass raises, the report keeps what the passes before it recorded, has exactly one more
  issue, the "Validation error" with the exception's message, and is not valid.
\<close>

theorem validate_schema_total:
  "(\<exists>r. validate_schema schema = Inr r)
   \<and> (\<forall>e. validate_structure schema = Inl e \<longrightarrow>
         validate_schema schema =
           Inr \<lparr>valid = False, issues = [''Validation error: '' @ str_exn e], warnings = [],
                suggestions = [], google_validation = PNone\<rparr>)
   \<and> (\<forall>st e. validate_structure schema = Inr st \<and> validate_content schema = Inl e \<longrightarrow>
         validate_schema schema =
           Inr \<lparr>valid = False, issues = s_issues st @ [''Validation error: '' @ str_exn e],
                warnings = s_warnings st, suggestions = [], google_validation = PNone\<rparr>)
   \<and> (\<forall>st c e. validate_structure schema = Inr st \<and> validate_content schema = Inr c \<and>
           validate_seo_practices schema = Inl e \<longrightarrow>
         validate_schema schema =
           Inr \<lparr>valid = False,
                issues = s_issues st @ c_issues c @ [''Validation error: '' @ str_exn e],
                warnings = s_warnings st @ c_warnings c, suggestions = c_suggestions c,
                google_validation = PNone\<rparr>)"
proof -
  have total: "\<exists>r. validate_schema schema = Inr r"
  proof (cases "validate_structure schema")
    case (Inl e)
    then show ?thesis by (simp add: validate_schema_structure_raises)
  next
    case st: (Inr st)
    show ?thesis
    proof (cases "validate_content schema")
      case (Inl e)
      with st show ?thesis by (simp add: validate_schema_content_raises)
    next
      case c: (Inr c)
      show ?thesis
      proof (cases "validate_seo_practices schema")
        case (Inl e)
        with st c show ?thesis by (simp add: validate_schema_seo_raises)
      next
        case (Inr s)
        with st c show ?thesis by (simp add: validate_schema_returns)
      qed
    qed
  qed
  show ?thesis
    using total validate_schema_structure_raises validate_schema_content_raises
      validate_schema_seo_raises
    by blast
qed

lemma raising_structure_example:
  "validate_structure [(''mainEntity'', PList [PNone])] = Inl (not_container PNone)"
  by (simp add: validate_structure_def structure_context_def structure_type_def structure_main_entity_def Let_def dict_has_def add_s_issue_def validate_question_entity_def)

lemma raising_content_example_structure:
  "validate_structure [(''@context'', PStr ''https://schema.org''), (''@type'', PStr ''FAQPage''), (''mainEntity'', PNone)] =
     Inr \<lparr>s_valid = False, s_issues = [''mainEntity must be a list''], s_warnings = []\<rparr>"
  by (simp add: validate_structure_def structure_context_def structure_type_def structure_main_entity_def Let_def dict_has_def add_s_issue_def)

lemma raising_content_example:
  "validate_content [(''@context'', PStr ''https://schema.org''), (''@type'', PStr ''FAQPage''), (''mainEntity'', PNone)] =
     Inl (not_iterable PNone)"
  by (simp add: validate_content_def Let_def dict_get_or_def)

lemma raising_seo_example_structure:
  "validate_structure [(''@context'', PStr ''https://schema.org''), (''@type'', PStr ''FAQPage''),
      (''mainEntity'', PList [PDict [(''@type'', PStr ''Question''), (''name'', PNone),
         (''acceptedAnswer'', PDict [(''@type'', PStr ''Answer''), (''text'', PStr ''Monday through Friday, 8 AM to 5 PM.'')])]])] =
     Inr \<lparr>s_valid = True, s_issues = [''Question 0: '' @ sq @ ''name'' @ sq @ '' must be a non-empty string''], s_warnings = []\<rparr>"
  by (simp add: validate_structure_def structure_context_def structure_type_def structure_main_entity_def Let_def dict_has_def dict_get_def dict_get_or_def add_s_issue_def
      validate_question_entity_def entity_name_def entity_answer_def entity_answer_text_def
      add_e_issue_def add_e_warning_def question_prefix_def str_nat_digits strip_def is_space_def)

lemma raising_seo_example_content:
  "validate_content [(''@context'', PStr ''https://schema.org''), (''@type'', PStr ''FAQPage''),
      (''mainEntity'', PList [PDict [(''@type'', PStr ''Question''), (''name'', PNone),
         (''acceptedAnswer'', PDict [(''@type'', PStr ''Answer''), (''text'', PStr ''Monday through Friday, 8 AM to 5 PM.'')])]])] =
     Inr \<lparr>c_issues = [], c_warnings = [], c_suggestions = [''Question 1: Consider expanding the answer for better value'']\<rparr>"
  by (simp add: validate_content_def Let_def dict_get_or_def set_len_def content_diversity_def str_nat_digits)

lemma raising_seo_example:
  "validate_seo_practices [(''@context'', PStr ''https://schema.org''), (''@type'', PStr ''FAQPage''),
      (''mainEntity'', PList [PDict [(''@type'', PStr ''Question''), (''name'', PNone),
         (''acceptedAnswer'', PDict [(''@type'', PStr ''Answer''), (''text'', PStr ''Monday through Friday, 8 AM to 5 PM.'')])]])] =
     Inl (no_attribute PNone ''lower'')"
  by (simp add: validate_seo_practices_def Let_def dict_get_or_def dict_has_def)

theorem validate_schema_total_witness:
  "validate_schema [(''mainEntity'', PList [PNone])] =
     Inr \<lparr>valid = False, issues = [''Validation error: '' @ str_exn (not_container PNone)], warnings = [],
          suggestions = [], google_validation = PNone\<rparr>
   \<and> validate_schema [(''@context'', PStr ''https://schema.org''), (''@type'', PStr ''FAQPage''), (''mainEntity'', PNone)] =
     Inr \<lparr>valid = False, issues = [''mainEntity must be a list'', ''Validation error: '' @ str_exn (not_iterable PNone)],
          warnings = [], suggestions = [], google_validation = PNone\<rparr>
   \<and> validate_schema [(''@context'', PStr ''https://schema.org''), (''@type'', PStr ''FAQPage''),
      (''mainEntity'', PList [PDict [(''@type'', PStr ''Question''), (''name'', PNone),
         (''acceptedAnswer'', PDict [(''@type'', PStr ''Answer''), (''text'', PStr ''Monday through Friday, 8 AM to 5 PM.'')])]])] =
     Inr \<lparr>valid = False,
          issues = [''Question 0: '' @ sq @ ''name'' @ sq @ '' must be a non-empty string'',
                    ''Validation error: '' @ str_exn (no_attribute PNone ''lower'')],
          warnings = [], suggestions = [''Question 1: Consider expanding the answer for better value''],
          google_validation = PNone\<rparr>"
  using validate_schema_total [of "[(''mainEntity'', PList [PNone])]"]
    validate_schema_total [of "[(''@context'', PStr ''https://schema.org''), (''@type'', PStr ''FAQPage''), (''mainEntity'', PNone)]"]
    validate_schema_total [of "[(''@context'', PStr ''https://schema.org''), (''@type'', PStr ''FAQPage''),
      (''mainEntity'', PList [PDict [(''@type'', PStr ''Question''), (''name'', PNone),
         (''acceptedAnswer'', PDict [(''@type'', PStr ''Answer''), (''text'', PStr ''Monday through Friday, 8 AM to 5 PM.'')])]])]"]
  unfolding raising_structure_example raising_content_example_structure raising_content_example
    raising_seo_example_structure raising_seo_example_content raising_seo_example
  by simp

text \<open>
  C5 on the code. On a \<^verbatim>\<open>mainEntity\<close> whose only element is a string the sub-check raises
  \<^verbatim>\<open>AttributeError\<close>, the exception leaves the structural pass, and the report of
  \<^verbatim>\<open>validate_schema\<close> carries the orchestrator's "Validation error" issue, which names
  no entity index.
\<close>

theorem structure_raises_on_non_mapping_entity:
  "validate_structure [(''@context'', PStr ''https://schema.org''), (''@type'', PStr ''FAQPage''),
      (''mainEntity'', PList [PStr ''not a dictionary''])]
     = Inl (AttributeError (sq @ ''str'' @ sq @ '' object has no attribute '' @ sq @ ''get'' @ sq))
   \<and> validate_schema [(''@context'', PStr ''https://schema.org''), (''@type'', PStr ''FAQPage''),
      (''mainEntity'', PList [PStr ''not a dictionary''])]
     = Inr \<lparr>valid = False,
            issues = [''Validation error: '' @ sq @ ''str'' @ sq @ '' object has no attribute '' @ sq @ ''get'' @ sq],
            warnings = [], suggestions = [], google_validation = PNone\<rparr>"
proof -
  have st: "validate_structure [(''@context'', PStr ''https://schema.org''), (''@type'', PStr ''FAQPage''),
      (''mainEntity'', PList [PStr ''not a dictionary''])]
     = Inl (AttributeError (sq @ ''str'' @ sq @ '' object has no attribute '' @ sq @ ''get'' @ sq))"
    by (simp add: validate_structure_def structure_context_def structure_type_def structure_main_entity_def Let_def dict_has_def add_s_issue_def validate_question_entity_def
        no_attribute_def)
  show ?thesis
    unfolding validate_schema_structure_raises [OF st] using st by simp
qed

text \<open>
  C10. When the document has no \<^verbatim>\<open>mainEntity\<close>, the SEO pass reads the empty list, so the
  count is 0 and its only warning is the one asking for at least 3 questions; the
  structural pass records the missing required field, and the report of
  \<^verbatim>\<open>validate_schema\<close> holds both.
\<close>

theorem absent_main_entity:
  assumes "\<not> dict_has schema ''mainEntity''"
  shows "(\<exists>s. validate_seo_practices schema = Inr s \<and>
              q_warnings s = [''FAQ pages should have at least 3 questions for best SEO results''])
       \<and> (\<exists>st. validate_structure schema = Inr st \<and>
              ''Missing required field: mainEntity'' \<in> set (s_issues st))
       \<and> (\<exists>r. validate_schema schema = Inr r \<and>
              ''Missing required field: mainEntity'' \<in> set (issues r) \<and>
              ''FAQ pages should have at least 3 questions for best SEO results'' \<in> set (warnings r))"
proof -
  from assms have none: "map_of schema ''mainEntity'' = None"
    by (simp add: dict_has_def)
  have seo: "validate_seo_practices schema =
      Inr (\<lparr>q_warnings = [''FAQ pages should have at least 3 questions for best SEO results''],
            q_suggestions =
              (if \<not> dict_has schema ''name''
               then [''Consider adding a '' @ sq @ ''name'' @ sq @ '' field for the FAQ page''] else []) @
              (if \<not> dict_has schema ''description''
               then [''Consider adding a '' @ sq @ ''description'' @ sq @ '' field for better SEO''] else [])\<rparr>)"
    using none by (simp add: validate_seo_practices_def Let_def dict_get_or_def)
  then obtain s where s: "validate_seo_practices schema = Inr s"
    and ws: "q_warnings s = [''FAQ pages should have at least 3 questions for best SEO results'']"
    by simp
  from validate_structure_absent [OF none] obtain st where st: "validate_structure schema = Inr st"
    and i1: "''Missing required field: mainEntity'' \<in> set (s_issues st)"
    by blast
  have "validate_content schema = Inr \<lparr>c_issues = [], c_warnings = [], c_suggestions = []\<rparr>"
    using none
    by (simp add: validate_content_def Let_def dict_get_or_def set_len_def content_diversity_def)
  then obtain c where c: "validate_content schema = Inr c"
    by simp
  have "validate_schema schema =
     Inr \<lparr>valid = (s_valid st \<and> s_issues st @ c_issues c = []), issues = s_issues st @ c_issues c,
          warnings = s_warnings st @ c_warnings c @ q_warnings s,
          suggestions = c_suggestions c @ q_suggestions s, google_validation = PNone\<rparr>"
    by (rule validate_schema_returns [OF st c s])
  then have "\<exists>r. validate_schema schema = Inr r \<and>
              ''Missing required field: mainEntity'' \<in> set (issues r) \<and>
              ''FAQ pages should have at least 3 questions for best SEO results'' \<in> set (warnings r)"
    using i1 ws by auto
  then show ?thesis using s ws st i1 by blast
qed

theorem absent_main_entity_witness:
  "\<not> dict_has [(''@context'', PStr ''https://schema.org''), (''@type'', PStr ''FAQPage'')] ''mainEntity''
   \<and> validate_schema [(''@context'', PStr ''https://schema.org''), (''@type'', PStr ''FAQPage'')]
       = Inr \<lparr>valid = False, issues = [''Missing required field: mainEntity''],
              warnings = [''FAQ pages should have at least 3 questions for best SEO results''],
              suggestions = [''Consider adding a '' @ sq @ ''name'' @ sq @ '' field for the FAQ page'',
                             ''Consider adding a '' @ sq @ ''description'' @ sq @ '' field for better SEO''],
              google_validation = PNone\<rparr>"
proof -
  let ?schema = "[(''@context'', PStr ''https://schema.org''), (''@type'', PStr ''FAQPage'')]"
  have absent: "\<not> dict_has ?schema ''mainEntity''"
    by (simp add: dict_has_def)
  have st: "validate_structure ?schema =
      Inr \<lparr>s_valid = False, s_issues = [''Missing required field: mainEntity''], s_warnings = []\<rparr>"
    by (simp add: validate_structure_def structure_context_def structure_type_def structure_main_entity_def Let_def dict_has_def add_s_issue_def)
  have c: "validate_content ?schema = Inr \<lparr>c_issues = [], c_warnings = [], c_suggestions = []\<rparr>"
    by (simp add: validate_content_def Let_def dict_get_or_def set_len_def content_diversity_def)
  have s: "validate_seo_practices ?schema =
      Inr \<lparr>q_warnings = [''FAQ pages should have at least 3 questions for best SEO results''],
           q_suggestions = [''Consider adding a '' @ sq @ ''name'' @ sq @ '' field for the FAQ page'',
                         ''Consider adding a '' @ sq @ ''description'' @ sq @ '' field for better SEO'']\<rparr>"
    by (simp add: validate_seo_practices_def Let_def dict_get_or_def dict_has_def)
  from absent_main_entity [OF absent] show ?thesis
    using absent unfolding validate_schema_returns [OF st c s] by simp
qed

section \<open>Properties of the content-quality pass\<close>

lemma split_acc_eq_Nil_iff: "split_acc cur s = [] \<longleftrightarrow> cur = [] \<and> (\<forall>c\<in>set s. is_space c)"
  by (induction s arbitrary: cur) auto

lemma split_acc_open_token:
  "cur \<noteq> [] \<Longrightarrow> \<exists>ws. split_acc cur s = (rev cur @ takeWhile (\<lambda>c. \<not> is_space c) s) # ws"
proof (induction s arbitrary: cur)
  case Nil
  then show ?case by simp
next
  case (Cons c cs)
  show ?case
  proof (cases "is_space c")
    case True
    with Cons.prems show ?thesis by simp
  next
    case False
    from Cons.IH [of "c # cur"] obtain ws where
      "split_acc (c # cur) cs = (rev (c # cur) @ takeWhile (\<lambda>c. \<not> is_space c) cs) # ws"
      by auto
    with False show ?thesis by simp
  qed
qed

lemma split_acc_first_token:
  "\<exists>c\<in>set s. \<not> is_space c \<Longrightarrow> \<exists>ws. split_acc [] s = first_token s # ws"
proof (induction s)
  case Nil
  then show ?case by simp
next
  case (Cons c cs)
  show ?case
  proof (cases "is_space c")
    case True
    with Cons show ?thesis by (auto simp: first_token_def)
  next
    case False
    from split_acc_open_token [of "[c]" cs] obtain ws where
      "split_acc [c] cs = (c # takeWhile (\<lambda>c. \<not> is_space c) cs) # ws"
      by auto
    with False show ?thesis by (simp add: first_token_def)
  qed
qed

lemma split_eq_Nil_iff: "split s = [] \<longleftrightarrow> \<not> has_token s"
  by (simp add: split_def has_token_def split_acc_eq_Nil_iff)

lemma split_first_token: "has_token s \<Longrightarrow> \<exists>ws. split s = first_token s # ws"
  by (simp add: split_def has_token_def split_acc_first_token)

lemma starters_of_strings:
  "starters_of (map PStr ss) = Inr (map first_token (filter has_token ss))"
proof (induction ss)
  case Nil
  then show ?case by simp
next
  case (Cons s ss)
  show ?case
  proof (cases "has_token s")
    case True
    from split_first_token [OF True] obtain ws where "split s = first_token s # ws" ..
    with True Cons show ?thesis by simp
  next
    case False
    then have "split s = []" by (simp add: split_eq_Nil_iff)
    with False Cons show ?thesis by simp
  qed
qed

lemma starters_of_Inr_strings:
  "starters_of qs = Inr st \<Longrightarrow> \<exists>ss. qs = map PStr ss"
proof (induction qs arbitrary: st)
  case Nil
  then show ?case by simp
next
  case (Cons q qs)
  from Cons.prems obtain s st' where q: "q = PStr s" and "starters_of qs = Inr st'"
    by (auto split: pyval.splits sum.splits)
  from Cons.IH [OF this(2)] obtain ss where "qs = map PStr ss" ..
  with q have "q # qs = map PStr (s # ss)" by simp
  then show ?case ..
qed

lemma py_len_iter: "py_iter v = Inr es \<Longrightarrow> py_len v = Inr (length es)"
  by (cases v) auto

lemma content_answers_keeps:
  "content_answers es i r = Inr r' \<Longrightarrow>
   c_issues r' = c_issues r \<and> c_warnings r' = c_warnings r \<and>
   ((''Consider varying question starters for better diversity'' \<in> set (c_suggestions r')) =
    (''Consider varying question starters for better diversity'' \<in> set (c_suggestions r)))"
  by (induction es i r rule: content_answers.induct)
     (auto split: option.splits pyval.splits sum.splits if_splits)


lemma set_len_Inr: "set_len qs = Inr n \<Longrightarrow> n = length (remdups (map hash_key qs))"
  by (auto simp: set_len_def split: option.splits)

lemma length_remdups_neq_iff:
  "(length qs \<noteq> length (remdups (map f qs))) = (\<not> distinct (map f qs))"
proof -
  have "(length (remdups (map f qs)) = length (map f qs)) = distinct (map f qs)"
    by (simp only: length_remdups_eq remdups_id_iff_distinct)
  then show ?thesis by auto
qed

lemma not_distinct_map_iff:
  "(\<not> distinct (map hash_key qs)) = (\<exists>i j. i < j \<and> j < length qs \<and> py_eq (qs ! i) (qs ! j))"
proof
  assume "\<not> distinct (map hash_key qs)"
  then obtain i j where ij: "i < length qs" "j < length qs" "i \<noteq> j"
    and eq: "hash_key (qs ! i) = hash_key (qs ! j)"
    by (auto simp: distinct_conv_nth)
  show "\<exists>i j. i < j \<and> j < length qs \<and> py_eq (qs ! i) (qs ! j)"
  proof (cases "i < j")
    case True
    with ij eq show ?thesis by (auto simp: py_eq_def)
  next
    case False
    with ij eq have "j < i \<and> i < length qs \<and> py_eq (qs ! j) (qs ! i)"
      by (simp add: py_eq_def)
    then show ?thesis by blast
  qed
next
  assume "\<exists>i j. i < j \<and> j < length qs \<and> py_eq (qs ! i) (qs ! j)"
  then obtain i j where ij: "i < j" "j < length qs"
    and eq: "hash_key (qs ! i) = hash_key (qs ! j)"
    by (auto simp: py_eq_def)
  show "\<not> distinct (map hash_key qs)"
  proof
    assume "distinct (map hash_key qs)"
    with ij have "(map hash_key qs ! i = map hash_key qs ! j) = (i = j)"
      by (intro nth_eq_iff_index_eq) simp_all
    with ij eq show False by simp
  qed
qed

lemma map_PStr_inj: "map PStr a = map PStr b \<Longrightarrow> a = b"
  by (induction a arbitrary: b) auto

lemma content_diversity_keeps:
  "content_diversity m es qs r = Inr r' \<Longrightarrow> c_issues r' = c_issues r \<and> c_warnings r' = c_warnings r"
  by (auto simp: content_diversity_def split: sum.splits if_splits)

lemma content_diversity_vary:
  assumes len: "py_len m = Inr n"
    and ret: "content_diversity m es qs r = Inr r'"
    and fresh: "''Consider varying question starters for better diversity'' \<notin> set (c_suggestions r)"
  shows "(''Consider varying question starters for better diversity'' \<in> set (c_suggestions r')) =
         (3 \<le> n \<and> (\<exists>ss. qs = map PStr ss \<and>
            10 * card (set (map first_token (filter has_token ss))) < 7 * length (filter has_token ss)))"
proof (cases "3 \<le> n")
  case False
  with len ret have "r' = r" by (simp add: content_diversity_def)
  with False fresh show ?thesis by simp
next
  case True
  from len ret True obtain starters where st: "starters_of qs = Inr starters"
    and r': "r' = (if lt_seven_tenths (length (remdups starters)) (length starters)
                   then r\<lparr>c_suggestions := c_suggestions r @
                          [''Consider varying question starters for better diversity'']\<rparr>
                   else r)"
    by (auto simp: content_diversity_def split: sum.splits if_splits)
  from starters_of_Inr_strings [OF st] obtain ss where qs: "qs = map PStr ss" ..
  with st have starters: "starters = map first_token (filter has_token ss)"
    by (simp add: starters_of_strings)
  have unique: "ss' = ss" if "qs = map PStr ss'" for ss'
    using that qs by (simp add: map_PStr_inj)
  have "(''Consider varying question starters for better diversity'' \<in> set (c_suggestions r')) =
        (10 * card (set (map first_token (filter has_token ss))) < 7 * length (filter has_token ss))"
    using fresh by (simp add: r' starters lt_seven_tenths_def length_remdups_card_conv)
  with True qs unique show ?thesis by auto
qed

lemma validate_content_Inr:
  assumes "validate_content schema = Inr c"
  obtains es n r2 where
    "py_iter (dict_get_or schema ''mainEntity'' (PList [])) = Inr es"
    "set_len (collect_questions es) = Inr n"
    "content_diversity (dict_get_or schema ''mainEntity'' (PList [])) es (collect_questions es)
       \<lparr>c_issues = [],
        c_warnings = (if length (collect_questions es) \<noteq> n then [''Duplicate questions found''] else []),
        c_suggestions = []\<rparr> = Inr r2"
    "content_answers es 0 r2 = Inr c"
  using assms
  by (auto simp: validate_content_def Let_def split: sum.splits if_splits)

lemma content_warnings:
  assumes "validate_content schema = Inr c"
    and "py_iter (dict_get_or schema ''mainEntity'' (PList [])) = Inr es"
  shows "c_warnings c = (if \<not> distinct (map hash_key (collect_questions es))
                         then [''Duplicate questions found''] else [])"
proof -
  from assms(1) obtain es' n r2 where
    es': "py_iter (dict_get_or schema ''mainEntity'' (PList [])) = Inr es'" and
    n: "set_len (collect_questions es') = Inr n" and
    d: "content_diversity (dict_get_or schema ''mainEntity'' (PList [])) es' (collect_questions es')
       \<lparr>c_issues = [],
        c_warnings = (if length (collect_questions es') \<noteq> n then [''Duplicate questions found''] else []),
        c_suggestions = []\<rparr> = Inr r2" and
    a: "content_answers es' 0 r2 = Inr c"
    by (rule validate_content_Inr)
  from es' assms(2) have [simp]: "es' = es" by simp
  from content_answers_keeps [OF a] content_diversity_keeps [OF d]
  have "c_warnings c = (if length (collect_questions es) \<noteq> n then [''Duplicate questions found''] else [])"
    by simp
  also from set_len_Inr [OF n] have "n = length (remdups (map hash_key (collect_questions es)))"
    by simp
  finally show ?thesis
    by (simp only: length_remdups_neq_iff)
qed

text \<open>Unfolding the content pass on a concrete document.\<close>

lemmas content_eval =
  validate_content_def Let_def dict_get_or_def set_len_def content_diversity_def
  lt_seven_tenths_def split_def lower_def lower_char_def is_space_def str_nat_digits

lemma py_eq_strings: "py_eq (PStr a) (PStr b) = (a = b)"
  by (simp add: py_eq_def)

text \<open>
  What line 175 computes. The content pass compares the collected questions as set
  elements, so two strings count as duplicates only when they are the same string, letter
  case included. The warning "Duplicate questions found" is the pass's only warning; when
  the pass returns it is present exactly when two of the collected questions are equal in
  that sense, and then once.
\<close>

lemma duplicate_warning_exact:
  assumes "validate_content schema = Inr c"
    and "py_iter (dict_get_or schema ''mainEntity'' (PList [])) = Inr es"
  shows "c_warnings c =
           (if \<exists>i j. i < j \<and> j < length (collect_questions es) \<and>
                 py_eq (collect_questions es ! i) (collect_questions es ! j)
            then [''Duplicate questions found''] else [])
       \<and> (\<forall>a b. py_eq (PStr a) (PStr b) = (a = b))"
  using content_warnings [OF assms] by (simp only: not_distinct_map_iff py_eq_strings) simp

lemma duplicate_warning_exact_example:
  "validate_content [(''mainEntity'', PList [PDict [(''name'', PStr ''What are your hours?'')],
        PDict [(''name'', PStr ''What are your hours?'')], PDict [(''name'', PStr ''Where are you?'')]])]
     = Inr \<lparr>c_issues = [], c_warnings = [''Duplicate questions found''],
            c_suggestions = [''Consider varying question starters for better diversity'']\<rparr>
   \<and> py_eq (PStr ''What are your hours?'') (PStr ''What are your hours?'')"
proof -
  let ?es = "[PDict [(''name'', PStr ''What are your hours?'')],
        PDict [(''name'', PStr ''What are your hours?'')], PDict [(''name'', PStr ''Where are you?'')]]"
  have ev: "validate_content [(''mainEntity'', PList ?es)]
     = Inr \<lparr>c_issues = [], c_warnings = [''Duplicate questions found''],
            c_suggestions = [''Consider varying question starters for better diversity'']\<rparr>"
    by (simp add: content_eval)
  have it: "py_iter (dict_get_or [(''mainEntity'', PList ?es)] ''mainEntity'' (PList [])) = Inr ?es"
    by (simp add: dict_get_or_def)
  from duplicate_warning_exact [OF ev it] show ?thesis using ev by simp
qed

text \<open>
  C3 on the code. The duplicate check is meant to ignore letter case: the names are
  lower-cased two lines further down (line 183) and in the SEO pass (line 225), and
  \<^verbatim>\<open>FAQGenerator.validate_faqs\<close> lower-cases the questions before the same comparison
  with the same message. Line 174 collects the names as written, so two questions that
  differ only in the case of a letter, equal after \<^verbatim>\<open>lower\<close>, get no warning.
\<close>

theorem duplicate_case_insensitive_missed:
  "lower ''Hello world'' = lower ''hello world''
   \<and> validate_content [(''mainEntity'', PList [PDict [(''name'', PStr ''Hello world'')],
        PDict [(''name'', PStr ''hello world'')]])]
     = Inr \<lparr>c_issues = [], c_warnings = [], c_suggestions = []\<rparr>"
proof (rule conjI)
  show "lower ''Hello world'' = lower ''hello world''"
    by code_simp
  show "validate_content [(''mainEntity'', PList [PDict [(''name'', PStr ''Hello world'')],
        PDict [(''name'', PStr ''hello world'')]])]
     = Inr \<lparr>c_issues = [], c_warnings = [], c_suggestions = []\<rparr>"
    by (simp add: content_eval)
qed

text \<open>
  C6, as the code has it. The diversity check is guarded by \<^verbatim>\<open>len(main_entity) >= 3\<close>: it
  runs exactly when \<^verbatim>\<open>mainEntity\<close> has at least 3 elements, whether or not they carry a
  question text. When the pass returns, the collected questions of such a document are
  strings, and the suggestion to vary the starters is present exactly when the number of
  distinct first tokens, in the case they were written in, is below 70% of the number of
  questions that have a token.
\<close>

theorem starter_diversity:
  assumes "validate_content schema = Inr c"
    and "py_iter (dict_get_or schema ''mainEntity'' (PList [])) = Inr es"
  shows "(''Consider varying question starters for better diversity'' \<in> set (c_suggestions c)) =
         (3 \<le> length es \<and>
          (\<exists>qs. collect_questions es = map PStr qs \<and>
             10 * card (set (map first_token (filter has_token qs))) < 7 * length (filter has_token qs)))"
proof -
  from assms(1) obtain es' n r2 where
    es': "py_iter (dict_get_or schema ''mainEntity'' (PList [])) = Inr es'" and
    d: "content_diversity (dict_get_or schema ''mainEntity'' (PList [])) es' (collect_questions es')
       \<lparr>c_issues = [],
        c_warnings = (if length (collect_questions es') \<noteq> n then [''Duplicate questions found''] else []),
        c_suggestions = []\<rparr> = Inr r2" and
    a: "content_answers es' 0 r2 = Inr c"
    by (rule validate_content_Inr)
  from es' assms(2) have same: "es' = es" by simp
  have "(''Consider varying question starters for better diversity'' \<in> set (c_suggestions c)) =
        (''Consider varying question starters for better diversity'' \<in> set (c_suggestions r2))"
    using content_answers_keeps [OF a] by simp
  also have "\<dots> = (3 \<le> length es' \<and>
          (\<exists>qs. collect_questions es' = map PStr qs \<and>
             10 * card (set (map first_token (filter has_token qs))) < 7 * length (filter has_token qs)))"
    by (rule content_diversity_vary [OF py_len_iter [OF es'] d]) simp
  finally show ?thesis unfolding same .
qed

theorem starter_diversity_witness:
  "validate_content [(''mainEntity'', PList [PDict [(''name'', PStr ''What services do you offer?'')],
        PDict [(''name'', PStr ''  What are your hours?'')], PDict [(''name'', PStr ''what is the price?'')],
        PDict [(''name'', PStr ''   '')]])]
     = Inr \<lparr>c_issues = [], c_warnings = [],
            c_suggestions = [''Consider varying question starters for better diversity'']\<rparr>
   \<and> collect_questions [PDict [(''name'', PStr ''What services do you offer?'')],
        PDict [(''name'', PStr ''  What are your hours?'')], PDict [(''name'', PStr ''what is the price?'')],
        PDict [(''name'', PStr ''   '')]]
     = map PStr [''What services do you offer?'', ''  What are your hours?'', ''what is the price?'', ''   '']
   \<and> map first_token (filter has_token
        [''What services do you offer?'', ''  What are your hours?'', ''what is the price?'', ''   ''])
     = [''What'', ''What'', ''what'']"
proof -
  let ?es = "[PDict [(''name'', PStr ''What services do you offer?'')],
        PDict [(''name'', PStr ''  What are your hours?'')], PDict [(''name'', PStr ''what is the price?'')],
        PDict [(''name'', PStr ''   '')]]"
  have ev: "validate_content [(''mainEntity'', PList ?es)]
     = Inr \<lparr>c_issues = [], c_warnings = [],
            c_suggestions = [''Consider varying question starters for better diversity'']\<rparr>"
    by (simp add: content_eval)
  have it: "py_iter (dict_get_or [(''mainEntity'', PList ?es)] ''mainEntity'' (PList [])) = Inr ?es"
    by (simp add: dict_get_or_def)
  have tokens: "map first_token (filter has_token
        [''What services do you offer?'', ''  What are your hours?'', ''what is the price?'', ''   ''])
     = [''What'', ''What'', ''what'']"
    by (simp add: first_token_def has_token_def is_space_def)
  from starter_diversity [OF ev it] show ?thesis using ev tokens by (simp add: dict_get_or_def)
qed

text \<open>
  The claim's guard, at least 3 entities with question text, fails: of three entities only
  two have a \<^verbatim>\<open>name\<close>, and the check runs and emits the suggestion.
\<close>

theorem starter_diversity_guard_counterexample:
  "\<not> dict_has [] ''name''
   \<and> validate_content [(''mainEntity'', PList [PDict [(''name'', PStr ''What services do you offer?'')],
        PDict [(''name'', PStr ''What are your hours?'')], PDict []])]
     = Inr \<lparr>c_issues = [], c_warnings = [],
            c_suggestions = [''Consider varying question starters for better diversity'']\<rparr>"
  by (simp add: content_eval dict_has_def)

lemma collect_questions_append:
  "collect_questions (xs @ ys) = collect_questions xs @ collect_questions ys"
  by (induction xs rule: collect_questions.induct) simp_all

lemma collect_questions_absent_name:
  "PDict d \<in> set es \<Longrightarrow> \<not> dict_has d ''name'' \<Longrightarrow> PStr [] \<in> set (collect_questions es)"
  by (induction es rule: collect_questions.induct) (auto simp: dict_has_def dict_get_or_def)

lemma two_absent_names_not_distinct:
  assumes "i < j" "j < length es" "es ! i = PDict di" "es ! j = PDict dj"
    and "\<not> dict_has di ''name''" "\<not> dict_has dj ''name''"
  shows "\<not> distinct (collect_questions es)"
proof -
  from assms(1,2) have i: "i < length es" by simp
  have es: "es = take i es @ PDict di # drop (Suc i) es"
    using id_take_nth_drop [OF i] assms(3) by simp
  have "es ! j = drop (Suc i) es ! (j - Suc i)"
    using assms(1,2) by simp
  moreover have "j - Suc i < length (drop (Suc i) es)"
    using assms(1,2) by simp
  ultimately have "PDict dj \<in> set (drop (Suc i) es)"
    using assms(4) by (metis nth_mem)
  then have later: "PStr [] \<in> set (collect_questions (drop (Suc i) es))"
    using assms(6) by (rule collect_questions_absent_name)
  have "collect_questions es =
      collect_questions (take i es) @ PStr [] # collect_questions (drop (Suc i) es)"
    using assms(5)
    by (subst es) (simp add: collect_questions_append dict_has_def dict_get_or_def)
  with later show ?thesis by simp
qed

text \<open>
  C9, as the code has it. An entity that is a dictionary without \<^verbatim>\<open>name\<close> contributes
  the empty string to the collected questions. Two such entities make the collected list
  repeat the empty string, and the content pass, when it returns, warns "Duplicate
  questions found".
\<close>

theorem absent_names_duplicate:
  assumes "map_of schema ''mainEntity'' = Some (PList es)"
    and "i < j" "j < length es" "es ! i = PDict di" "es ! j = PDict dj"
    and "\<not> dict_has di ''name''" "\<not> dict_has dj ''name''"
    and "validate_content schema = Inr c"
  shows "collect_questions [es ! i] = [PStr []] \<and> collect_questions [es ! j] = [PStr []]
       \<and> c_warnings c = [''Duplicate questions found'']"
proof -
  have it: "py_iter (dict_get_or schema ''mainEntity'' (PList [])) = Inr es"
    using assms(1) by (simp add: dict_get_or_def)
  have "\<not> distinct (collect_questions es)"
    using assms(2-7) by (rule two_absent_names_not_distinct)
  then have "\<not> distinct (map hash_key (collect_questions es))"
    by (simp add: distinct_map)
  with content_warnings [OF assms(8) it] have "c_warnings c = [''Duplicate questions found'']"
    by simp
  with assms(4-7) show ?thesis
    by (simp add: dict_has_def dict_get_or_def)
qed

theorem absent_names_duplicate_witness:
  "validate_content [(''mainEntity'', PList [PDict [(''@type'', PStr ''Question'')],
        PDict [(''name'', PStr ''What are your hours?'')], PDict []])]
     = Inr \<lparr>c_issues = [], c_warnings = [''Duplicate questions found''], c_suggestions = []\<rparr>
   \<and> collect_questions [PDict [(''@type'', PStr ''Question'')],
        PDict [(''name'', PStr ''What are your hours?'')], PDict []]
     = [PStr [], PStr ''What are your hours?'', PStr []]"
proof -
  let ?es = "[PDict [(''@type'', PStr ''Question'')],
        PDict [(''name'', PStr ''What are your hours?'')], PDict []]"
  let ?schema = "[(''mainEntity'', PList ?es)]"
  have ev: "validate_content ?schema
     = Inr \<lparr>c_issues = [], c_warnings = [''Duplicate questions found''], c_suggestions = []\<rparr>"
    by (simp add: content_eval)
  have "collect_questions [?es ! 0] = [PStr []] \<and> collect_questions [?es ! 2] = [PStr []]
       \<and> c_warnings \<lparr>c_issues = [], c_warnings = [''Duplicate questions found''], c_suggestions = []\<rparr>
            = [''Duplicate questions found'']"
    by (rule absent_names_duplicate [where schema = ?schema and es = ?es and i = 0 and j = 2
          and di = "[(''@type'', PStr ''Question'')]" and dj = "[]", OF _ _ _ _ _ _ _ ev])
       (simp_all add: dict_has_def)
  then show ?thesis using ev by (simp add: dict_get_or_def)
qed

text \<open>
  Without the proviso the claim fails: a third entity whose \<^verbatim>\<open>name\<close> is a list makes
  \<^verbatim>\<open>set(questions)\<close> raise on line 175, before the warning is appended, and the pass
  returns nothing although two entities lack \<^verbatim>\<open>name\<close>.
\<close>

theorem absent_names_unhashable_counterexample:
  "\<not> dict_has [] ''name''
   \<and> validate_content [(''mainEntity'', PList [PDict [], PDict [], PDict [(''name'', PList [])]])]
     = Inl (TypeError (''unhashable type: '' @ sq @ ''list'' @ sq))"
  by (simp add: content_eval dict_has_def unhashable_def)

section \<open>Properties of the platform-eligibility check\<close>

lemma google_entities_completes:
  "list_all answer_is_mapping es \<Longrightarrow>
   \<exists>r'. google_entities es i r = Inr r' \<and> g_warnings r' = g_warnings r \<and>
        rich_results r' = rich_results r"
proof (induction es i r rule: google_entities.induct)
  case (2 d rest i results)
  from "2.prems" obtain a where a: "dict_get_or d ''acceptedAnswer'' (PDict []) = PDict a"
    and rest: "list_all answer_is_mapping rest"
    by (auto split: pyval.splits)
  show ?case
    using "2.IH" [OF refl refl refl a refl refl rest] a
    by (auto simp: Let_def add_g_issue_def)
qed (auto simp: add_g_issue_def)

lemma google_entities_ok:
  "list_all google_entity_ok es \<Longrightarrow> google_entities es i r = Inr r"
proof (induction es i r rule: google_entities.induct)
  case (2 d rest i results)
  from "2.prems" obtain a where a: "dict_get_or d ''acceptedAnswer'' (PDict []) = PDict a"
    and ok: "dict_get d ''@type'' = PStr ''Question''" "truthy (dict_get d ''name'')"
      "dict_get a ''@type'' = PStr ''Answer''" "truthy (dict_get a ''text'')"
    and rest: "list_all google_entity_ok rest"
    by (auto split: pyval.splits)
  show ?case
    using "2.IH" [OF refl refl refl a refl refl rest] a ok
    by (simp add: Let_def)
qed auto


text \<open>The eligibility step (lines 293-298), reached when the loop completes.\<close>

lemma eligibility_step:
  assumes "dict_get schema ''@type'' = PStr ''FAQPage''"
    and "py_iter (dict_get_or schema ''mainEntity'' (PList [])) = Inr es"
    and "es \<noteq> []"
    and "list_all answer_is_mapping es"
  shows "\<exists>r. validate_with_google schema = Inr r
           \<and> rich_results r = (g_valid r \<and> 3 \<le> length es)
           \<and> g_warnings r = [if rich_results r then ''Schema is eligible for rich results''
                             else ''Schema may not be eligible for rich results'']
           \<and> (list_all google_entity_ok es \<longrightarrow> g_valid r \<and> g_issues r = [])"
proof -
  let ?r0 = "\<lparr>g_valid = True, g_issues = [], g_warnings = [], rich_results = True\<rparr>"
  from google_entities_completes [OF assms(4), of 0 ?r0] obtain r' where
    loop: "google_entities es 0 ?r0 = Inr r'" and w: "g_warnings r' = []"
    by auto
  have ok: "r' = ?r0" if "list_all google_entity_ok es"
    using google_entities_ok [OF that, of 0 ?r0] loop by simp
  have len: "py_len (dict_get_or schema ''mainEntity'' (PList [])) = Inr (length es)"
    using assms(2) by (rule py_len_iter)
  have nonempty: "\<not> length es < 1"
    using assms(3) by (cases es) simp_all
  define r where "r = (if g_valid r' \<and> 3 \<le> length es
      then r'\<lparr>rich_results := True,
               g_warnings := g_warnings r' @ [''Schema is eligible for rich results'']\<rparr>
      else r'\<lparr>rich_results := False,
               g_warnings := g_warnings r' @ [''Schema may not be eligible for rich results'']\<rparr>)"
  have "validate_with_google schema = Inr r"
    using assms(1,2) len nonempty loop
    by (simp add: validate_with_google_def Let_def r_def)
  moreover have "rich_results r = (g_valid r \<and> 3 \<le> length es)"
    by (simp add: r_def)
  moreover have "g_warnings r = [if rich_results r then ''Schema is eligible for rich results''
                             else ''Schema may not be eligible for rich results'']"
    by (simp add: r_def w)
  moreover have "list_all google_entity_ok es \<longrightarrow> g_valid r \<and> g_issues r = []"
    using ok by (auto simp: r_def)
  ultimately show ?thesis by blast
qed

text \<open>
  C7, as the code has it. \<^verbatim>\<open>validate_with_google\<close> has two short-circuit returns: when
  \<^verbatim>\<open>@type\<close> is not \<^verbatim>\<open>FAQPage\<close>, and when \<^verbatim>\<open>mainEntity\<close> has no element. Each returns an
  invalid report with its single issue and no warning. Otherwise, when every entity that is
  a dictionary has an \<^verbatim>\<open>acceptedAnswer\<close> that is absent or a dictionary, the check reaches
  the eligibility step: \<^verbatim>\<open>rich_results\<close> is \<^verbatim>\<open>valid\<close> and at least 3 elements, and the
  report has exactly one warning, which states the eligibility either way. If moreover every
  entity passes the checks of the loop, the report is valid and has no issue: with 2 such
  entities it is valid, \<^verbatim>\<open>rich_results\<close> is false and the warning is the one of reduced
  eligibility.
\<close>

theorem rich_results_eligibility:
  "(dict_get schema ''@type'' \<noteq> PStr ''FAQPage'' \<longrightarrow>
      (\<exists>r. validate_with_google schema = Inr r \<and> \<not> g_valid r \<and>
           g_issues r = [''Schema type not supported for rich results''] \<and> g_warnings r = []))
   \<and> (dict_get schema ''@type'' = PStr ''FAQPage'' \<and>
        py_len (dict_get_or schema ''mainEntity'' (PList [])) = Inr 0 \<longrightarrow>
      (\<exists>r. validate_with_google schema = Inr r \<and> \<not> g_valid r \<and>
           g_issues r = [''No questions found''] \<and> g_warnings r = []))
   \<and> (\<forall>es. dict_get schema ''@type'' = PStr ''FAQPage'' \<and>
        py_iter (dict_get_or schema ''mainEntity'' (PList [])) = Inr es \<and> es \<noteq> [] \<and>
        list_all answer_is_mapping es \<longrightarrow>
      (\<exists>r. validate_with_google schema = Inr r
           \<and> rich_results r = (g_valid r \<and> 3 \<le> length es)
           \<and> g_warnings r = [if rich_results r then ''Schema is eligible for rich results''
                             else ''Schema may not be eligible for rich results'']
           \<and> (list_all google_entity_ok es \<longrightarrow> g_valid r \<and> g_issues r = [])))"
proof (intro conjI impI allI)
  assume "dict_get schema ''@type'' \<noteq> PStr ''FAQPage''"
  then show "\<exists>r. validate_with_google schema = Inr r \<and> \<not> g_valid r \<and>
           g_issues r = [''Schema type not supported for rich results''] \<and> g_warnings r = []"
    by (simp add: validate_with_google_def Let_def add_g_issue_def)
next
  assume "dict_get schema ''@type'' = PStr ''FAQPage'' \<and>
        py_len (dict_get_or schema ''mainEntity'' (PList [])) = Inr 0"
  then show "\<exists>r. validate_with_google schema = Inr r \<and> \<not> g_valid r \<and>
           g_issues r = [''No questions found''] \<and> g_warnings r = []"
    by (simp add: validate_with_google_def Let_def add_g_issue_def)
next
  fix es
  assume h: "dict_get schema ''@type'' = PStr ''FAQPage'' \<and>
        py_iter (dict_get_or schema ''mainEntity'' (PList [])) = Inr es \<and> es \<noteq> [] \<and>
        list_all answer_is_mapping es"
  then have t: "dict_get schema ''@type'' = PStr ''FAQPage''"
    and it: "py_iter (dict_get_or schema ''mainEntity'' (PList [])) = Inr es"
    and ne: "es \<noteq> []" and am: "list_all answer_is_mapping es"
    by simp_all
  show "\<exists>r. validate_with_google schema = Inr r
           \<and> rich_results r = (g_valid r \<and> 3 \<le> length es)
           \<and> g_warnings r = [if rich_results r then ''Schema is eligible for rich results''
                             else ''Schema may not be eligible for rich results'']
           \<and> (list_all google_entity_ok es \<longrightarrow> g_valid r \<and> g_issues r = [])"
    by (rule eligibility_step [OF t it ne am])
qed

theorem rich_results_eligibility_witness:
  "validate_with_google [(''@type'', PStr ''Article''), (''mainEntity'', PList [PNone])]
     = Inr \<lparr>g_valid = False, g_issues = [''Schema type not supported for rich results''],
            g_warnings = [], rich_results = True\<rparr>
   \<and> validate_with_google [(''@type'', PStr ''FAQPage''), (''mainEntity'', PList [])]
     = Inr \<lparr>g_valid = False, g_issues = [''No questions found''],
            g_warnings = [], rich_results = True\<rparr>
   \<and> validate_with_google [(''@context'', PStr ''https://schema.org''), (''@type'', PStr ''FAQPage''),
      (''mainEntity'', PList
         [PDict [(''@type'', PStr ''Question''), (''name'', PStr ''What services do you offer?''),
                 (''acceptedAnswer'', PDict [(''@type'', PStr ''Answer''),
                    (''text'', PStr ''We provide comprehensive dental care.'')])],
          PDict [(''@type'', PStr ''Question''), (''name'', PStr ''How do I schedule an appointment?''),
                 (''acceptedAnswer'', PDict [(''@type'', PStr ''Answer''),
                    (''text'', PStr ''You can schedule an appointment by calling our office.'')])]])]
     = Inr \<lparr>g_valid = True, g_issues = [],
            g_warnings = [''Schema may not be eligible for rich results''], rich_results = False\<rparr>"
proof (intro conjI)
  let ?s1 = "[(''@type'', PStr ''Article''), (''mainEntity'', PList [PNone])]"
  have "dict_get ?s1 ''@type'' \<noteq> PStr ''FAQPage''"
    by (simp add: dict_get_def dict_get_or_def)
  with rich_results_eligibility [of ?s1] obtain r where
    "validate_with_google ?s1 = Inr r" "\<not> g_valid r"
    "g_issues r = [''Schema type not supported for rich results'']" "g_warnings r = []"
    by blast
  moreover have "rich_results (projr (validate_with_google ?s1))"
    by (simp add: validate_with_google_def Let_def dict_get_def dict_get_or_def add_g_issue_def)
  ultimately show "validate_with_google ?s1
     = Inr \<lparr>g_valid = False, g_issues = [''Schema type not supported for rich results''],
            g_warnings = [], rich_results = True\<rparr>"
    by (cases r) simp
next
  let ?s2 = "[(''@type'', PStr ''FAQPage''), (''mainEntity'', PList [])]"
  have "dict_get ?s2 ''@type'' = PStr ''FAQPage'' \<and>
        py_len (dict_get_or ?s2 ''mainEntity'' (PList [])) = Inr 0"
    by (simp add: dict_get_def dict_get_or_def)
  with rich_results_eligibility [of ?s2] obtain r where
    "validate_with_google ?s2 = Inr r" "\<not> g_valid r"
    "g_issues r = [''No questions found'']" "g_warnings r = []"
    by blast
  moreover have "rich_results (projr (validate_with_google ?s2))"
    by (simp add: validate_with_google_def Let_def dict_get_def dict_get_or_def add_g_issue_def)
  ultimately show "validate_with_google ?s2
     = Inr \<lparr>g_valid = False, g_issues = [''No questions found''],
            g_warnings = [], rich_results = True\<rparr>"
    by (cases r) simp
next
  let ?es = "[PDict [(''@type'', PStr ''Question''), (''name'', PStr ''What services do you offer?''),
                 (''acceptedAnswer'', PDict [(''@type'', PStr ''Answer''),
                    (''text'', PStr ''We provide comprehensive dental care.'')])],
          PDict [(''@type'', PStr ''Question''), (''name'', PStr ''How do I schedule an appointment?''),
                 (''acceptedAnswer'', PDict [(''@type'', PStr ''Answer''),
                    (''text'', PStr ''You can schedule an appointment by calling our office.'')])]]"
  let ?schema = "[(''@context'', PStr ''https://schema.org''), (''@type'', PStr ''FAQPage''),
      (''mainEntity'', PList ?es)]"
  have h: "dict_get ?schema ''@type'' = PStr ''FAQPage'' \<and>
        py_iter (dict_get_or ?schema ''mainEntity'' (PList [])) = Inr ?es \<and> ?es \<noteq> [] \<and>
        list_all answer_is_mapping ?es"
    by (simp add: dict_get_def dict_get_or_def)
  have ok: "list_all google_entity_ok ?es"
    by (simp add: dict_get_def dict_get_or_def)
  from rich_results_eligibility [of ?schema] h obtain r where
    r: "validate_with_google ?schema = Inr r"
    and rich: "rich_results r = (g_valid r \<and> 3 \<le> length ?es)"
    and w: "g_warnings r = [if rich_results r then ''Schema is eligible for rich results''
                             else ''Schema may not be eligible for rich results'']"
    and v: "list_all google_entity_ok ?es \<longrightarrow> g_valid r \<and> g_issues r = []"
    by blast
  from v ok have "g_valid r" "g_issues r = []" by simp_all
  moreover from rich have "\<not> rich_results r" by simp
  moreover from w this have "g_warnings r = [''Schema may not be eligible for rich results'']" by simp
  ultimately have "r = \<lparr>g_valid = True, g_issues = [],
            g_warnings = [''Schema may not be eligible for rich results''], rich_results = False\<rparr>"
    by (cases r) simp
  with r show "validate_with_google ?schema
     = Inr \<lparr>g_valid = True, g_issues = [],
            g_warnings = [''Schema may not be eligible for rich results''], rich_results = False\<rparr>"
    by simp
qed

text \<open>
  The claim that a warning is always appended and that \<^verbatim>\<open>rich_results\<close> is \<^verbatim>\<open>valid\<close> and at
  least 3 entities fails on the empty document: the check returns at the type test, invalid,
  with no warning and with \<^verbatim>\<open>rich_results\<close> as it was initialised.
\<close>

theorem rich_results_short_circuit_counterexample:
  "validate_with_google []
     = Inr \<lparr>g_valid = False, g_issues = [''Schema type not supported for rich results''],
            g_warnings = [], rich_results = True\<rparr>"
  by (simp add: validate_with_google_def Let_def dict_get_def dict_get_or_def add_g_issue_def)

end
